theory Spec2Isabelle
  imports Main "HOL-Library.Word" "HOL-Library.Sublist"
begin

section \<open>Values on the wire and in the domain\<close>

text \<open>
  The module under verification is \<^verbatim>\<open>EthModule\<close> of
  \<^verbatim>\<open>buidler-evm/provider/modules/eth.ts\<close>: the dispatcher of the \<^verbatim>\<open>eth_*\<close> JSON-RPC
  methods of an in-process Ethereum node.

  A \<^verbatim>\<open>Buffer\<close> is a list of bytes. A \<^verbatim>\<open>BN\<close> (arbitrary-precision, non-negative here) is a
  \<open>nat\<close>. A raw positional argument (\<^verbatim>\<open>any\<close>) is a \<open>jsval\<close>; a function value is
  \<open>JFunction k\<close>, where \<open>k\<close> only identifies the callback.
\<close>

type_synonym buffer = "8 word list"

datatype jsval =
    JUndefined
  | JNull
  | JBool bool
  | JNumber int
  | JString string
  | JArray "jsval list"
  | JObject "(string \<times> jsval) list"
  | JFunction nat

text \<open>
  The four error classes of \<^verbatim>\<open>../errors\<close> that the module throws, a plain JavaScript
  \<^verbatim>\<open>Error\<close> thrown by a library (identified by its message), and the rejection of a
  node operation, which the module never inspects.
\<close>

datatype error =
    MethodNotFoundError string
  | MethodNotSupportedError string
  | InvalidInputError string
  | InvalidArgumentsError string
  | JsError string
  | NodeFailure string

datatype blockTag = BlockNumber nat | Earliest | Latest | Pending

datatype logTopic = TopicHash buffer | TopicList "buffer option list" | TopicNull

datatype logAddress = OneAddress buffer | AddressList "buffer list"

datatype subscribeRequest = NewHeads | NewPendingTransactions | Logs

record RpcCallRequest =
  rc_from :: "buffer option"
  rc_to :: "buffer option"
  rc_gas :: "nat option"
  rc_gasPrice :: "nat option"
  rc_value :: "nat option"
  rc_data :: "buffer option"

record RpcTransactionRequest =
  rt_from :: buffer
  rt_to :: "buffer option"
  rt_gas :: "nat option"
  rt_gasPrice :: "nat option"
  rt_value :: "nat option"
  rt_data :: "buffer option"
  rt_nonce :: "nat option"

record RpcFilterRequest =
  rf_fromBlock :: "blockTag option"
  rf_toBlock :: "blockTag option"
  rf_address :: "logAddress option"
  rf_topics :: "logTopic list option"
  rf_blockHash :: "buffer option"

record CallParams =
  cp_to :: buffer
  cp_from :: buffer
  cp_data :: buffer
  cp_gasLimit :: nat
  cp_gasPrice :: nat
  cp_value :: nat

record TransactionParams =
  tp_to :: buffer
  tp_from :: buffer
  tp_gasLimit :: nat
  tp_gasPrice :: nat
  tp_value :: nat
  tp_data :: buffer
  tp_nonce :: nat

record FilterParams =
  fp_fromBlock :: int
  fp_toBlock :: int
  fp_topics :: "buffer option list option list"
  fp_addresses :: "buffer list"

section \<open>Wire codec\<close>

text \<open>
  \<^verbatim>\<open>numberToRpcQuantity\<close> and \<^verbatim>\<open>bufferToRpcData\<close> of \<^verbatim>\<open>../output\<close> and the scalar
  decoders of \<^verbatim>\<open>../input\<close> are not among the sources. Section 4.1 of the specification
  fixes them: an integer is \<^verbatim>\<open>0x\<close> followed by its hexadecimal digits without leading
  zeros (zero is \<^verbatim>\<open>0x0\<close>); a byte sequence is \<^verbatim>\<open>0x\<close> followed by two lowercase digits a
  byte (the empty one is \<^verbatim>\<open>0x\<close>); decoding rejects non-hexadecimal characters, an odd
  number of digits for data and a leading zero digit for a quantity.
\<close>

text \<open>
  Modelled from the spec: a lowercase hexadecimal digit, as
  \<^verbatim>\<open>numberToRpcQuantity\<close> writes it (absent from the sources; section
  4.1).
\<close>

definition hexDigit :: "nat \<Rightarrow> char" where
  "hexDigit d = ''0123456789abcdef'' ! d"

text \<open>
  Modelled from the spec: the value of a hexadecimal digit, as the decoders of
  \<^verbatim>\<open>../input\<close> read it (absent from the sources; section 4.1: non-hex
  characters are rejected).
\<close>

definition hexValue :: "char \<Rightarrow> nat option" where
  "hexValue c =
     map_of (zip ''0123456789abcdefABCDEF''
                 [0, 1, 2, 3, 4, 5, 6, 7, 8, 9, 10, 11, 12, 13, 14, 15, 10, 11, 12, 13, 14, 15]) c"

text \<open>
  Modelled from the spec: the value of a digit that is known to be hexadecimal (helper of
  the absent decoders; section 4.1).
\<close>

definition digitValue :: "char \<Rightarrow> nat" where
  "digitValue c = (case hexValue c of Some d \<Rightarrow> d | None \<Rightarrow> 0)"

text \<open>
  Modelled from the spec: the test for a hexadecimal character of the absent decoders
  (section 4.1).
\<close>

definition isHexChar :: "char \<Rightarrow> bool" where
  "isHexChar c = (hexValue c \<noteq> None)"

text \<open>
  Modelled from the spec: the hexadecimal digits of an integer, without leading zeros, as
  the absent \<^verbatim>\<open>numberToRpcQuantity\<close> writes them (section 4.1).
\<close>

function toHex :: "nat \<Rightarrow> string" where
  "toHex n = (if n < 16 then [hexDigit n] else toHex (n div 16) @ [hexDigit (n mod 16)])"
  by pat_completeness auto
termination
  by (relation "measure (\<lambda>n. n)") auto

declare toHex.simps [simp del]

text \<open>
  Modelled from the spec: \<^verbatim>\<open>numberToRpcQuantity\<close> of
  \<^verbatim>\<open>../output\<close>, absent from the sources (section 4.1: 0x and the
  digits, zero is 0x0).
\<close>

definition numberToRpcQuantity :: "nat \<Rightarrow> string" where
  "numberToRpcQuantity n = ''0x'' @ toHex n"

text \<open>
  Modelled from the spec: the integer a digit string denotes, for the absent decoder of
  quantities (section 4.1).
\<close>

definition hexToNat :: "string \<Rightarrow> nat" where
  "hexToNat ds = foldl (\<lambda>acc c. 16 * acc + digitValue c) 0 ds"

text \<open>
  Modelled from the spec: the decoder of a quantity inside the absent
  \<^verbatim>\<open>rpcQuantity\<close> (section 4.1: strict, no leading zero digit, 0x0 is
  zero).
\<close>

definition decodeQuantity :: "string \<Rightarrow> nat option" where
  "decodeQuantity s =
     (case s of
        a # b # ds \<Rightarrow>
          if a = CHR ''0'' \<and> b = CHR ''x'' \<and> ds \<noteq> [] \<and> list_all isHexChar ds
             \<and> (hd ds \<noteq> CHR ''0'' \<or> ds = ''0'')
          then Some (hexToNat ds) else None
      | _ \<Rightarrow> None)"

text \<open>
  Modelled from the spec: the two digits of a byte, as the absent
  \<^verbatim>\<open>bufferToRpcData\<close> writes them (section 4.1).
\<close>

definition byteToHex :: "8 word \<Rightarrow> string" where
  "byteToHex b = [hexDigit (unat b div 16), hexDigit (unat b mod 16)]"

text \<open>
  Modelled from the spec: \<^verbatim>\<open>bufferToRpcData\<close> of
  \<^verbatim>\<open>../output\<close>, absent from the sources (section 4.1: 0x and two
  lowercase digits a byte, the empty sequence is 0x).
\<close>

definition bufferToRpcData :: "buffer \<Rightarrow> string" where
  "bufferToRpcData bs = ''0x'' @ concat (map byteToHex bs)"

text \<open>
  Modelled from the spec: the bytes a digit string of even length denotes, for the absent
  decoder of data (section 4.1).
\<close>

fun hexToBytes :: "string \<Rightarrow> buffer" where
  "hexToBytes (a # b # rest) =
     of_nat (16 * digitValue a + digitValue b) # hexToBytes rest"
| "hexToBytes _ = []"

text \<open>
  Modelled from the spec: the decoder of byte data inside the absent
  \<^verbatim>\<open>rpcData\<close> (section 4.1: strict, an odd number of digits is
  rejected).
\<close>

definition decodeData :: "string \<Rightarrow> buffer option" where
  "decodeData s =
     (case s of
        a # b # ds \<Rightarrow>
          if a = CHR ''0'' \<and> b = CHR ''x'' \<and> list_all isHexChar ds \<and> even (length ds)
          then Some (hexToBytes ds) else None
      | _ \<Rightarrow> None)"

section \<open>Parameter validation\<close>

text \<open>
  \<^verbatim>\<open>validateParams\<close> and the argument kinds of \<^verbatim>\<open>../input\<close> are not among the sources.
  Sections 3 and 4.2 of the specification fix them: a method has an ordered list of
  argument kinds, each optionally marked tail-optional; extra arguments beyond the schema
  length, or too few required arguments, both fail with InvalidInput, and so does an
  argument of the wrong shape. The detail text of these failures is not specified; the
  texts below are placeholders. With \<open>k\<close> trailing tail-optional kinds in a schema of
  length \<open>n\<close>, between \<open>n - k\<close> and \<open>n\<close> arguments are accepted. There is one
  \<^verbatim>\<open>validateParams\<close> for each schema length the module uses, so that the result is the
  typed tuple the module's parameter functions declare.
\<close>

text \<open>
  Modelled from the spec: an argument kind of \<^verbatim>\<open>../input\<close> (absent
  from the sources; section 4.2: a validator, optionally marked tail-optional).
\<close>

record 'a paramType =
  decode :: "jsval \<Rightarrow> 'a option"
  tailOptional :: bool

text \<open>
  Modelled from the spec: \<^verbatim>\<open>rpcQuantity\<close> of
  \<^verbatim>\<open>../input\<close>, absent from the sources (sections 3 and 4.1).
\<close>

definition rpcQuantity :: "nat paramType" where
  "rpcQuantity =
     \<lparr>decode = (\<lambda>v. case v of JString s \<Rightarrow> decodeQuantity s | _ \<Rightarrow> None),
      tailOptional = False\<rparr>"

text \<open>
  Modelled from the spec: \<^verbatim>\<open>rpcData\<close> of
  \<^verbatim>\<open>../input\<close>, absent from the sources (sections 3 and 4.1).
\<close>

definition rpcData :: "buffer paramType" where
  "rpcData =
     \<lparr>decode = (\<lambda>v. case v of JString s \<Rightarrow> decodeData s | _ \<Rightarrow> None),
      tailOptional = False\<rparr>"

text \<open>
  Modelled from the spec: byte data of a fixed length, for the absent
  \<^verbatim>\<open>rpcAddress\<close> and \<^verbatim>\<open>rpcHash\<close> (section 3).
\<close>

definition fixedData :: "nat \<Rightarrow> jsval \<Rightarrow> buffer option" where
  "fixedData n v =
     (case decode rpcData v of
        None \<Rightarrow> None
      | Some b \<Rightarrow> if length b = n then Some b else None)"

text \<open>
  Modelled from the spec: \<^verbatim>\<open>rpcAddress\<close> of
  \<^verbatim>\<open>../input\<close>, absent from the sources (section 3: 20 bytes).
\<close>

definition rpcAddress :: "buffer paramType" where
  "rpcAddress = \<lparr>decode = fixedData 20, tailOptional = False\<rparr>"

text \<open>
  Modelled from the spec: \<^verbatim>\<open>rpcHash\<close> of
  \<^verbatim>\<open>../input\<close>, absent from the sources (section 3: 32 bytes).
\<close>

definition rpcHash :: "buffer paramType" where
  "rpcHash = \<lparr>decode = fixedData 32, tailOptional = False\<rparr>"

text \<open>
  Modelled from the spec: the boolean argument kind the absent
  \<^verbatim>\<open>validateParams\<close> is given (section 4.2).
\<close>

definition boolean :: "bool paramType" where
  "boolean =
     \<lparr>decode = (\<lambda>v. case v of JBool b \<Rightarrow> Some b | _ \<Rightarrow> None), tailOptional = False\<rparr>"

text \<open>
  Modelled from the spec: \<^verbatim>\<open>rpcUnknown\<close> of
  \<^verbatim>\<open>../input\<close>, absent from the sources (section 4.2: unknown, passed
  through).
\<close>

definition rpcUnknown :: "jsval paramType" where
  "rpcUnknown = \<lparr>decode = (\<lambda>v. Some v), tailOptional = False\<rparr>"

text \<open>
  Modelled from the spec: the marking of an argument kind as tail-optional, absent from the
  sources (section 4.2); an omitted value is \<^verbatim>\<open>undefined\<close>.
\<close>

definition optional :: "'a paramType \<Rightarrow> 'a option paramType" where
  "optional t =
     \<lparr>decode = (\<lambda>v. case v of JUndefined \<Rightarrow> Some None | _ \<Rightarrow> map_option Some (decode t v)),
      tailOptional = True\<rparr>"

text \<open>
  Modelled from the spec: the decoder of a block tag, absent from the sources (section 3: a
  block number or one of earliest, latest, pending).
\<close>

definition decodeBlockTag :: "jsval \<Rightarrow> blockTag option" where
  "decodeBlockTag v =
     (case v of
        JString s \<Rightarrow>
          if s = ''earliest'' then Some Earliest
          else if s = ''latest'' then Some Latest
          else if s = ''pending'' then Some Pending
          else map_option BlockNumber (decodeQuantity s)
      | _ \<Rightarrow> None)"

text \<open>
  Modelled from the spec: \<^verbatim>\<open>optionalBlockTag\<close> of
  \<^verbatim>\<open>../input\<close>, absent from the sources (section 3: absence is
  allowed).
\<close>

definition optionalBlockTag :: "blockTag option paramType" where
  "optionalBlockTag = optional \<lparr>decode = decodeBlockTag, tailOptional = False\<rparr>"

text \<open>
  Modelled from the spec: the read of a property of a request object,
  \<^verbatim>\<open>undefined\<close> when it is missing, for the absent decoders of
  structured requests.
\<close>

definition field :: "(string \<times> jsval) list \<Rightarrow> string \<Rightarrow> jsval" where
  "field obj k = (case map_of obj k of None \<Rightarrow> JUndefined | Some v \<Rightarrow> v)"

text \<open>
  Modelled from the spec: the decoder of a call request, absent from the sources (section 3:
  every field optional).
\<close>

definition decodeCallRequest :: "jsval \<Rightarrow> RpcCallRequest option" where
  "decodeCallRequest v =
     (case v of
        JObject obj \<Rightarrow>
          Option.bind (decode (optional rpcAddress) (field obj ''from'')) (\<lambda>f.
          Option.bind (decode (optional rpcAddress) (field obj ''to'')) (\<lambda>t.
          Option.bind (decode (optional rpcQuantity) (field obj ''gas'')) (\<lambda>g.
          Option.bind (decode (optional rpcQuantity) (field obj ''gasPrice'')) (\<lambda>p.
          Option.bind (decode (optional rpcQuantity) (field obj ''value'')) (\<lambda>w.
          Option.bind (decode (optional rpcData) (field obj ''data'')) (\<lambda>d.
          Some \<lparr>rc_from = f, rc_to = t, rc_gas = g, rc_gasPrice = p, rc_value = w,
                rc_data = d\<rparr>))))))
      | _ \<Rightarrow> None)"

text \<open>
  Modelled from the spec: \<^verbatim>\<open>rpcCallRequest\<close> of
  \<^verbatim>\<open>../input\<close>, absent from the sources (section 3).
\<close>

definition rpcCallRequest :: "RpcCallRequest paramType" where
  "rpcCallRequest = \<lparr>decode = decodeCallRequest, tailOptional = False\<rparr>"

text \<open>
  Modelled from the spec: the decoder of a transaction request, absent from the sources
  (section 3: as a call request, with a nonce, and from mandatory).
\<close>

definition decodeTransactionRequest :: "jsval \<Rightarrow> RpcTransactionRequest option" where
  "decodeTransactionRequest v =
     (case v of
        JObject obj \<Rightarrow>
          Option.bind (decode rpcAddress (field obj ''from'')) (\<lambda>f.
          Option.bind (decode (optional rpcAddress) (field obj ''to'')) (\<lambda>t.
          Option.bind (decode (optional rpcQuantity) (field obj ''gas'')) (\<lambda>g.
          Option.bind (decode (optional rpcQuantity) (field obj ''gasPrice'')) (\<lambda>p.
          Option.bind (decode (optional rpcQuantity) (field obj ''value'')) (\<lambda>w.
          Option.bind (decode (optional rpcData) (field obj ''data'')) (\<lambda>d.
          Option.bind (decode (optional rpcQuantity) (field obj ''nonce'')) (\<lambda>n.
          Some \<lparr>rt_from = f, rt_to = t, rt_gas = g, rt_gasPrice = p, rt_value = w,
                rt_data = d, rt_nonce = n\<rparr>)))))))
      | _ \<Rightarrow> None)"

text \<open>
  Modelled from the spec: \<^verbatim>\<open>rpcTransactionRequest\<close> of
  \<^verbatim>\<open>../input\<close>, absent from the sources (section 3).
\<close>

definition rpcTransactionRequest :: "RpcTransactionRequest paramType" where
  "rpcTransactionRequest = \<lparr>decode = decodeTransactionRequest, tailOptional = False\<rparr>"

text \<open>
  Modelled from the spec: the decoder of the address field of a filter request, absent from
  the sources (section 3: an address or a sequence of addresses).
\<close>

definition decodeLogAddress :: "jsval \<Rightarrow> logAddress option" where
  "decodeLogAddress v =
     (case v of
        JArray vs \<Rightarrow> map_option AddressList (those (map (decode rpcAddress) vs))
      | _ \<Rightarrow> map_option OneAddress (decode rpcAddress v))"

text \<open>
  Modelled from the spec: the decoder of a topic slot, absent from the sources (section 3: a
  hash, a sequence of hashes, or null).
\<close>

definition decodeLogTopic :: "jsval \<Rightarrow> logTopic option" where
  "decodeLogTopic v =
     (case v of
        JNull \<Rightarrow> Some TopicNull
      | JArray vs \<Rightarrow> map_option (\<lambda>hs. TopicList (map Some hs)) (those (map (decode rpcHash) vs))
      | _ \<Rightarrow> map_option TopicHash (decode rpcHash v))"

text \<open>
  Modelled from the spec: the decoder of the topics field of a filter request, absent from
  the sources (section 3: a sequence of slots).
\<close>

definition decodeLogTopics :: "jsval \<Rightarrow> logTopic list option" where
  "decodeLogTopics v = (case v of JArray vs \<Rightarrow> those (map decodeLogTopic vs) | _ \<Rightarrow> None)"

text \<open>
  Modelled from the spec: the decoder of a filter request, absent from the sources (section
  3: every field optional).
\<close>

definition decodeFilterRequest :: "jsval \<Rightarrow> RpcFilterRequest option" where
  "decodeFilterRequest v =
     (case v of
        JObject obj \<Rightarrow>
          Option.bind (decode optionalBlockTag (field obj ''fromBlock'')) (\<lambda>f.
          Option.bind (decode optionalBlockTag (field obj ''toBlock'')) (\<lambda>t.
          Option.bind (decode (optional \<lparr>decode = decodeLogAddress, tailOptional = False\<rparr>)
                         (field obj ''address'')) (\<lambda>a.
          Option.bind (decode (optional \<lparr>decode = decodeLogTopics, tailOptional = False\<rparr>)
                         (field obj ''topics'')) (\<lambda>ts.
          Option.bind (decode (optional rpcHash) (field obj ''blockHash'')) (\<lambda>h.
          Some \<lparr>rf_fromBlock = f, rf_toBlock = t, rf_address = a, rf_topics = ts,
                rf_blockHash = h\<rparr>)))))
      | _ \<Rightarrow> None)"

text \<open>
  Modelled from the spec: \<^verbatim>\<open>rpcFilterRequest\<close> of
  \<^verbatim>\<open>../input\<close>, absent from the sources (section 3).
\<close>

definition rpcFilterRequest :: "RpcFilterRequest paramType" where
  "rpcFilterRequest = \<lparr>decode = decodeFilterRequest, tailOptional = False\<rparr>"

text \<open>
  Modelled from the spec: \<^verbatim>\<open>optionalRpcFilterRequest\<close> of
  \<^verbatim>\<open>../input\<close>, absent from the sources (section 4.5: criteria may be
  omitted).
\<close>

definition optionalRpcFilterRequest :: "RpcFilterRequest option paramType" where
  "optionalRpcFilterRequest = optional rpcFilterRequest"

text \<open>
  Modelled from the spec: the decoder of a subscription kind, absent from the sources
  (section 4.5: newHeads, newPendingTransactions or logs).
\<close>

definition decodeSubscribeRequest :: "jsval \<Rightarrow> subscribeRequest option" where
  "decodeSubscribeRequest v =
     (case v of
        JString s \<Rightarrow>
          if s = ''newHeads'' then Some NewHeads
          else if s = ''newPendingTransactions'' then Some NewPendingTransactions
          else if s = ''logs'' then Some Logs
          else None
      | _ \<Rightarrow> None)"

text \<open>
  Modelled from the spec: \<^verbatim>\<open>rpcSubscribeRequest\<close> of
  \<^verbatim>\<open>../input\<close>, absent from the sources (section 4.5).
\<close>

definition rpcSubscribeRequest :: "subscribeRequest paramType" where
  "rpcSubscribeRequest = \<lparr>decode = decodeSubscribeRequest, tailOptional = False\<rparr>"

text \<open>
  Modelled from the spec: the arity rule of the absent
  \<^verbatim>\<open>validateParams\<close> (section 4.2: extra arguments, or too few
  required ones, fail).
\<close>

definition arityOk :: "nat \<Rightarrow> bool list \<Rightarrow> bool" where
  "arityOk n opts =
     (n \<le> length opts \<and> length opts - length (takeWhile (\<lambda>b. b) (rev opts)) \<le> n)"

text \<open>
  Modelled from the spec: the read of a positional argument by the absent
  \<^verbatim>\<open>validateParams\<close>; one that is not supplied reads as
  \<^verbatim>\<open>undefined\<close>.
\<close>

definition param :: "jsval list \<Rightarrow> nat \<Rightarrow> jsval" where
  "param ps i = (if i < length ps then ps ! i else JUndefined)"

text \<open>
  Modelled from the spec: the failure of the absent
  \<^verbatim>\<open>validateParams\<close> on a wrong number of arguments (section 4.2:
  InvalidInput; the detail text is not specified).
\<close>

definition wrongArity :: error where
  "wrongArity = InvalidInputError ''wrong number of arguments''"

text \<open>
  Modelled from the spec: the failure of the absent
  \<^verbatim>\<open>validateParams\<close> on an argument of the wrong shape (section 4.2:
  InvalidInput; the detail text is not specified).
\<close>

definition wrongShape :: error where
  "wrongShape = InvalidInputError ''invalid argument''"

text \<open>
  Modelled from the spec: \<^verbatim>\<open>validateParams\<close> of
  \<^verbatim>\<open>../input\<close> on the empty schema, absent from the sources (section
  4.2).
\<close>

definition validateParams0 :: "jsval list \<Rightarrow> error + unit" where
  "validateParams0 ps = (if arityOk (length ps) [] then Inr () else Inl wrongArity)"

text \<open>
  Modelled from the spec: \<^verbatim>\<open>validateParams\<close> of
  \<^verbatim>\<open>../input\<close> on a schema of one kind, absent from the sources
  (section 4.2).
\<close>

definition validateParams1 :: "jsval list \<Rightarrow> 'a paramType \<Rightarrow> error + 'a" where
  "validateParams1 ps t1 =
     (if \<not> arityOk (length ps) [tailOptional t1] then Inl wrongArity
      else case decode t1 (param ps 0) of
             None \<Rightarrow> Inl wrongShape
           | Some a \<Rightarrow> Inr a)"

text \<open>
  Modelled from the spec: \<^verbatim>\<open>validateParams\<close> of
  \<^verbatim>\<open>../input\<close> on a schema of two kinds, absent from the sources
  (section 4.2).
\<close>

definition validateParams2 ::
  "jsval list \<Rightarrow> 'a paramType \<Rightarrow> 'b paramType \<Rightarrow> error + ('a \<times> 'b)" where
  "validateParams2 ps t1 t2 =
     (if \<not> arityOk (length ps) [tailOptional t1, tailOptional t2] then Inl wrongArity
      else case decode t1 (param ps 0) of
             None \<Rightarrow> Inl wrongShape
           | Some a \<Rightarrow>
               (case decode t2 (param ps 1) of
                  None \<Rightarrow> Inl wrongShape
                | Some b \<Rightarrow> Inr (a, b)))"

text \<open>
  Modelled from the spec: \<^verbatim>\<open>validateParams\<close> of
  \<^verbatim>\<open>../input\<close> on a schema of three kinds, absent from the sources
  (section 4.2).
\<close>

definition validateParams3 ::
  "jsval list \<Rightarrow> 'a paramType \<Rightarrow> 'b paramType \<Rightarrow> 'c paramType \<Rightarrow> error + ('a \<times> 'b \<times> 'c)" where
  "validateParams3 ps t1 t2 t3 =
     (if \<not> arityOk (length ps) [tailOptional t1, tailOptional t2, tailOptional t3]
      then Inl wrongArity
      else case decode t1 (param ps 0) of
             None \<Rightarrow> Inl wrongShape
           | Some a \<Rightarrow>
               (case decode t2 (param ps 1) of
                  None \<Rightarrow> Inl wrongShape
                | Some b \<Rightarrow>
                    (case decode t3 (param ps 2) of
                       None \<Rightarrow> Inl wrongShape
                     | Some c \<Rightarrow> Inr (a, b, c))))"

section \<open>The node and the imported functions\<close>

text \<open>
  An \<^verbatim>\<open>async\<close> function is a function of the node's state that returns the promise's
  outcome (\<open>Inl\<close>: rejected, \<open>Inr\<close>: fulfilled) and the state it leaves.
\<close>

type_synonym ('s, 'a) async = "'s \<Rightarrow> (error + 'a) \<times> 's"

text \<open>
  The collaborators of \<^verbatim>\<open>EthModule\<close> are parameters: the chain id of \<^verbatim>\<open>_common\<close>, the
  operations of \<^verbatim>\<open>_node\<close> (a \<^verbatim>\<open>BuidlerNode\<close>; each may change the node's state \<open>'s\<close> and
  may reject, with a value this module never looks at), and the functions imported from
  \<^verbatim>\<open>ethereumjs-tx\<close>, \<^verbatim>\<open>ethereumjs-util\<close> and \<^verbatim>\<open>../output\<close> that build or render blocks
  (\<open>'b\<close>), transactions (\<open>'t\<close>) and block results (\<open>'r\<close>). \<open>newTransaction\<close> is the
  constructor \<^verbatim>\<open>new Transaction(rawTx, { common })\<close>: \<open>Inl msg\<close> is the \<^verbatim>\<open>Error\<close> it
  throws, with its message (likewise for \<open>toRpcSig\<close>).
  \<open>headerNumber b\<close> is \<^verbatim>\<open>new BN(b.header.number)\<close>. An absent callback, block or
  index is \<open>None\<close>.
\<close>

record ('s, 'b, 't, 'r) EthModule =
  chainId :: nat
  getLocalAccountAddresses :: "'s \<Rightarrow> (string + string list) \<times> 's"
  getLatestBlock :: "'s \<Rightarrow> (string + 'b) \<times> 's"
  runCall :: "CallParams \<Rightarrow> 's \<Rightarrow> (string + buffer) \<times> 's"
  getCoinbaseAddress :: "'s \<Rightarrow> (string + buffer) \<times> 's"
  estimateGas :: "TransactionParams \<Rightarrow> 's \<Rightarrow> (string + nat) \<times> 's"
  getGasPrice :: "'s \<Rightarrow> (string + nat) \<times> 's"
  getBlockGasLimit :: "'s \<Rightarrow> (string + nat) \<times> 's"
  getAccountBalance :: "buffer \<Rightarrow> 's \<Rightarrow> (string + nat) \<times> 's"
  getAccountNonce :: "buffer \<Rightarrow> 's \<Rightarrow> (string + nat) \<times> 's"
  getCode :: "buffer \<Rightarrow> 's \<Rightarrow> (string + buffer) \<times> 's"
  getStorageAt :: "buffer \<Rightarrow> nat \<Rightarrow> 's \<Rightarrow> (string + buffer) \<times> 's"
  getBlockByHash :: "buffer \<Rightarrow> 's \<Rightarrow> (string + 'b option) \<times> 's"
  getBlockByNumber :: "nat option \<Rightarrow> 's \<Rightarrow> (string + 'b option) \<times> 's"
  getBlockTotalDifficulty :: "'b \<Rightarrow> 's \<Rightarrow> (string + nat) \<times> 's"
  getBlockByTransactionHash :: "buffer \<Rightarrow> 's \<Rightarrow> (string + 'b option) \<times> 's"
  getSuccessfulTransactionByHash :: "buffer \<Rightarrow> 's \<Rightarrow> (string + 't option) \<times> 's"
  getTxBlockResults :: "'b \<Rightarrow> 's \<Rightarrow> (string + 'r option) \<times> 's"
  getPendingTransactions :: "'s \<Rightarrow> (string + 't list) \<times> 's"
  getSignedTransaction :: "TransactionParams \<Rightarrow> 's \<Rightarrow> (string + 't) \<times> 's"
  runTransactionInNewBlock :: "'t \<Rightarrow> 's \<Rightarrow> (string + unit) \<times> 's"
  signPersonalMessage ::
    "buffer \<Rightarrow> buffer \<Rightarrow> 's \<Rightarrow> (string + (nat \<times> buffer \<times> buffer)) \<times> 's"
  signTypedData :: "buffer \<Rightarrow> jsval \<Rightarrow> 's \<Rightarrow> (string + string) \<times> 's"
  newBlockFilter :: "nat option \<Rightarrow> 's \<Rightarrow> (string + nat) \<times> 's"
  newPendingTransactionFilter :: "nat option \<Rightarrow> 's \<Rightarrow> (string + nat) \<times> 's"
  newFilter :: "FilterParams \<Rightarrow> nat option \<Rightarrow> 's \<Rightarrow> (string + nat) \<times> 's"
  getFilterChanges :: "nat \<Rightarrow> 's \<Rightarrow> (string + jsval option) \<times> 's"
  getFilterLogs :: "nat \<Rightarrow> 's \<Rightarrow> (string + jsval option) \<times> 's"
  getLogs :: "FilterParams \<Rightarrow> 's \<Rightarrow> (string + jsval) \<times> 's"
  uninstallFilter :: "nat \<Rightarrow> bool \<Rightarrow> 's \<Rightarrow> (string + bool) \<times> 's"
  newTransaction :: "buffer \<Rightarrow> string + 't"
  txHash :: "'t \<Rightarrow> buffer"
  headerNumber :: "'b \<Rightarrow> nat"
  transactions :: "'b \<Rightarrow> 't list"
  toRpcSig :: "nat \<Rightarrow> buffer \<Rightarrow> buffer \<Rightarrow> string + string"
  getRpcBlock :: "'b \<Rightarrow> nat \<Rightarrow> bool \<Rightarrow> jsval"
  getRpcTransaction :: "'t \<Rightarrow> 'b option \<Rightarrow> int option \<Rightarrow> jsval"
  getRpcTransactionReceipt :: "'t \<Rightarrow> 'b \<Rightarrow> int \<Rightarrow> 'r option \<Rightarrow> jsval"

definition resolve :: "'a \<Rightarrow> ('s, 'a) async" where
  "resolve a = (\<lambda>s. (Inr a, s))"

definition reject :: "error \<Rightarrow> ('s, 'a) async" where
  "reject e = (\<lambda>s. (Inl e, s))"

definition sync :: "error + 'a \<Rightarrow> ('s, 'a) async" where
  "sync r = (\<lambda>s. (r, s))"

definition await :: "('s, 'a) async \<Rightarrow> ('a \<Rightarrow> ('s, 'b) async) \<Rightarrow> ('s, 'b) async" where
  "await m f =
     (\<lambda>s. case m s of
             (Inl e, s') \<Rightarrow> (Inl e, s')
           | (Inr a, s') \<Rightarrow> f a s')"

definition nodeCall :: "('s \<Rightarrow> (string + 'a) \<times> 's) \<Rightarrow> ('s, 'a) async" where
  "nodeCall operation =
     (\<lambda>s. case operation s of
             (Inl x, s') \<Rightarrow> (Inl (NodeFailure x), s')
           | (Inr a, s') \<Rightarrow> (Inr a, s'))"

subsection \<open>Library functions with a fixed meaning\<close>

text \<open>
  \<^verbatim>\<open>BN.toNumber\<close> (of \<^verbatim>\<open>bn.js\<close>) returns a value of at most 53 bits, the integers a
  JavaScript number stores exactly, and fails its assertion on a larger one, with the
  message below. \<^verbatim>\<open>toBuffer\<close> of \<^verbatim>\<open>ethereumjs-util\<close>, on a string, reads a \<^verbatim>\<open>0x\<close>-prefixed
  hexadecimal string (padded to an even number of digits) and throws on any other;
  \<^verbatim>\<open>zeroAddress()\<close> is the string of twenty zero bytes; \<^verbatim>\<open>bufferToHex\<close> renders bytes in
  lowercase hexadecimal. \<^verbatim>\<open>String.prototype.includes\<close> is the substring test.
\<close>

definition BN_toNumber :: "nat \<Rightarrow> error + nat" where
  "BN_toNumber n =
     (if n < 2 ^ 53 then Inr n
      else Inl (JsError ''Number can only safely store up to 53 bits''))"

definition isHexString :: "string \<Rightarrow> bool" where
  "isHexString v = (take 2 v = ''0x'' \<and> list_all isHexChar (drop 2 v))"

definition padToEven :: "string \<Rightarrow> string" where
  "padToEven a = (if odd (length a) then CHR ''0'' # a else a)"

definition toBuffer :: "string \<Rightarrow> error + buffer" where
  "toBuffer v =
     (if isHexString v then Inr (hexToBytes (padToEven (drop 2 v)))
      else Inl (JsError (''Cannot convert string to buffer. toBuffer only supports 0x-prefixed hex strings and this string was given: '' @ v)))"

definition zeroAddress :: string where
  "zeroAddress = ''0x'' @ replicate 40 (CHR ''0'')"

definition bufferToHex :: "buffer \<Rightarrow> string" where
  "bufferToHex buf = ''0x'' @ concat (map byteToHex buf)"

definition string_includes :: "string \<Rightarrow> string \<Rightarrow> bool" where
  "string_includes s pat = sublist pat s"

fun findIndex :: "('a \<Rightarrow> bool) \<Rightarrow> 'a list \<Rightarrow> int" where
  "findIndex p [] = - 1"
| "findIndex p (x # xs) =
     (if p x then 0 else (let i = findIndex p xs in if i = - 1 then - 1 else i + 1))"

section \<open>Utility methods of the module\<close>

definition validateBlockTag :: "blockTag option \<Rightarrow> error + unit" where
  "validateBlockTag blockTag =
     (if blockTag \<noteq> None \<and> blockTag \<noteq> Some Latest \<and> blockTag \<noteq> Some Pending
      then Inl (InvalidInputError ''Only latest and pending block params are supported'')
      else Inr ())"

fun extractBlock :: "blockTag option \<Rightarrow> error + int" where
  "extractBlock (Some Earliest) = Inr 0"
| "extractBlock None = Inr (- 1)"
| "extractBlock (Some Latest) = Inr (- 1)"
| "extractBlock (Some Pending) = Inl (InvalidArgumentsError ''pending not supported'')"
| "extractBlock (Some (BlockNumber n)) =
     (case BN_toNumber n of Inl e \<Rightarrow> Inl e | Inr k \<Rightarrow> Inr (int k))"

text \<open>The \<^verbatim>\<open>for\<close> loop of \<^verbatim>\<open>_extractLogTopics\<close>, pushing onto \<open>topics\<close>.\<close>

fun pushLogTopics ::
  "logTopic list \<Rightarrow> buffer option list option list \<Rightarrow> buffer option list option list" where
  "pushLogTopics [] topics = topics"
| "pushLogTopics (logTopic # rest) topics =
     pushLogTopics rest
       (topics @ [case logTopic of
                    TopicHash h \<Rightarrow> Some [Some h]
                  | TopicList l \<Rightarrow> Some l
                  | TopicNull \<Rightarrow> None])"

definition extractLogTopics :: "logTopic list option \<Rightarrow> buffer option list option list" where
  "extractLogTopics logTopics =
     (case logTopics of
        None \<Rightarrow> []
      | Some ts \<Rightarrow> if length ts = 0 then [] else pushLogTopics ts [])"

definition extractLogAddresses :: "logAddress option \<Rightarrow> buffer list" where
  "extractLogAddresses address =
     (case address of
        None \<Rightarrow> []
      | Some (OneAddress a) \<Rightarrow> [a]
      | Some (AddressList as) \<Rightarrow> as)"

definition getDefaultCallFrom :: "('s, 'b, 't, 'r) EthModule \<Rightarrow> ('s, buffer) async" where
  "getDefaultCallFrom m =
     await (nodeCall (getLocalAccountAddresses m)) (\<lambda>localAccounts.
       if length localAccounts = 0 then sync (toBuffer zeroAddress)
       else sync (toBuffer (localAccounts ! 0)))"

definition rpcCallRequestToNodeCallParams ::
  "('s, 'b, 't, 'r) EthModule \<Rightarrow> RpcCallRequest \<Rightarrow> ('s, CallParams) async" where
  "rpcCallRequestToNodeCallParams m rpcCall =
     await (case rc_from rpcCall of Some a \<Rightarrow> resolve a | None \<Rightarrow> getDefaultCallFrom m)
       (\<lambda>from'.
     await (case rc_gas rpcCall of Some g \<Rightarrow> resolve g | None \<Rightarrow> nodeCall (getBlockGasLimit m))
       (\<lambda>gasLimit.
     await (case rc_gasPrice rpcCall of Some p \<Rightarrow> resolve p | None \<Rightarrow> nodeCall (getGasPrice m))
       (\<lambda>gasPrice.
     resolve
       \<lparr>cp_to = (case rc_to rpcCall of Some a \<Rightarrow> a | None \<Rightarrow> []),
        cp_from = from',
        cp_data = (case rc_data rpcCall of Some d \<Rightarrow> d | None \<Rightarrow> []),
        cp_gasLimit = gasLimit,
        cp_gasPrice = gasPrice,
        cp_value = (case rc_value rpcCall of Some v \<Rightarrow> v | None \<Rightarrow> 0)\<rparr>)))"

definition rpcTransactionRequestToNodeTransactionParams ::
  "('s, 'b, 't, 'r) EthModule \<Rightarrow> RpcTransactionRequest \<Rightarrow> ('s, TransactionParams) async" where
  "rpcTransactionRequestToNodeTransactionParams m rpcTx =
     await (case rt_gas rpcTx of Some g \<Rightarrow> resolve g | None \<Rightarrow> nodeCall (getBlockGasLimit m))
       (\<lambda>gasLimit.
     await (case rt_gasPrice rpcTx of Some p \<Rightarrow> resolve p | None \<Rightarrow> nodeCall (getGasPrice m))
       (\<lambda>gasPrice.
     await (case rt_nonce rpcTx of
              Some n \<Rightarrow> resolve n
            | None \<Rightarrow> nodeCall (getAccountNonce m (rt_from rpcTx)))
       (\<lambda>nonce.
     resolve
       \<lparr>tp_to = (case rt_to rpcTx of Some a \<Rightarrow> a | None \<Rightarrow> []),
        tp_from = rt_from rpcTx,
        tp_gasLimit = gasLimit,
        tp_gasPrice = gasPrice,
        tp_value = (case rt_value rpcTx of Some v \<Rightarrow> v | None \<Rightarrow> 0),
        tp_data = (case rt_data rpcTx of Some d \<Rightarrow> d | None \<Rightarrow> []),
        tp_nonce = nonce\<rparr>)))"

text \<open>
  \<^verbatim>\<open>_rpcFilterRequestToGetLogsParams\<close>: when \<^verbatim>\<open>blockHash\<close> is given the request's
  \<^verbatim>\<open>fromBlock\<close> and \<^verbatim>\<open>toBlock\<close> are overwritten with the block's number before the
  criteria are built.
\<close>

definition buildFilterParams :: "RpcFilterRequest \<Rightarrow> error + FilterParams" where
  "buildFilterParams filter' =
     (case extractBlock (rf_fromBlock filter') of
        Inl e \<Rightarrow> Inl e
      | Inr fromBlock \<Rightarrow>
          (case extractBlock (rf_toBlock filter') of
             Inl e \<Rightarrow> Inl e
           | Inr toBlock \<Rightarrow>
               Inr \<lparr>fp_fromBlock = fromBlock,
                    fp_toBlock = toBlock,
                    fp_topics = extractLogTopics (rf_topics filter'),
                    fp_addresses = extractLogAddresses (rf_address filter')\<rparr>))"

definition rpcFilterRequestToGetLogsParams ::
  "('s, 'b, 't, 'r) EthModule \<Rightarrow> RpcFilterRequest \<Rightarrow> ('s, FilterParams) async" where
  "rpcFilterRequestToGetLogsParams m filter' =
     (case rf_blockHash filter' of
        Some blockHash \<Rightarrow>
          if rf_fromBlock filter' \<noteq> None \<or> rf_toBlock filter' \<noteq> None
          then reject (InvalidArgumentsError
                         ''blockHash is mutually exclusive with fromBlock/toBlock'')
          else await (nodeCall (getBlockByHash m blockHash)) (\<lambda>block.
                 case block of
                   None \<Rightarrow> reject (InvalidArgumentsError ''blockHash cannot be found'')
                 | Some b \<Rightarrow>
                     sync (buildFilterParams
                             (filter'\<lparr>rf_fromBlock := Some (BlockNumber (headerNumber m b)),
                                     rf_toBlock := Some (BlockNumber (headerNumber m b))\<rparr>)))
      | None \<Rightarrow> sync (buildFilterParams filter'))"

section \<open>The methods: parameters and actions\<close>

definition accountsParams :: "jsval list \<Rightarrow> error + unit" where
  "accountsParams params = validateParams0 params"

definition accountsAction :: "('s, 'b, 't, 'r) EthModule \<Rightarrow> ('s, jsval) async" where
  "accountsAction m =
     await (nodeCall (getLocalAccountAddresses m)) (\<lambda>as. resolve (JArray (map JString as)))"

definition blockNumberParams :: "jsval list \<Rightarrow> error + unit" where
  "blockNumberParams params = validateParams0 params"

definition blockNumberAction :: "('s, 'b, 't, 'r) EthModule \<Rightarrow> ('s, jsval) async" where
  "blockNumberAction m =
     await (nodeCall (getLatestBlock m)) (\<lambda>block.
       resolve (JString (numberToRpcQuantity (headerNumber m block))))"

definition callParams :: "jsval list \<Rightarrow> error + (RpcCallRequest \<times> blockTag option)" where
  "callParams params = validateParams2 params rpcCallRequest optionalBlockTag"

definition callAction ::
  "('s, 'b, 't, 'r) EthModule \<Rightarrow> RpcCallRequest \<Rightarrow> blockTag option \<Rightarrow> ('s, jsval) async" where
  "callAction m rpcCall blockTag =
     await (sync (validateBlockTag blockTag)) (\<lambda>_.
     await (rpcCallRequestToNodeCallParams m rpcCall) (\<lambda>callParams.
     await (nodeCall (runCall m callParams)) (\<lambda>returnData.
     resolve (JString (bufferToRpcData returnData)))))"

definition chainIdParams :: "jsval list \<Rightarrow> error + unit" where
  "chainIdParams params = validateParams0 params"

definition chainIdAction :: "('s, 'b, 't, 'r) EthModule \<Rightarrow> ('s, jsval) async" where
  "chainIdAction m = resolve (JString (numberToRpcQuantity (chainId m)))"

definition coinbaseParams :: "jsval list \<Rightarrow> error + unit" where
  "coinbaseParams params = validateParams0 params"

definition coinbaseAction :: "('s, 'b, 't, 'r) EthModule \<Rightarrow> ('s, jsval) async" where
  "coinbaseAction m =
     await (nodeCall (getCoinbaseAddress m)) (\<lambda>a. resolve (JString (bufferToHex a)))"

definition estimateGasParams ::
  "jsval list \<Rightarrow> error + (RpcTransactionRequest \<times> blockTag option)" where
  "estimateGasParams params = validateParams2 params rpcTransactionRequest optionalBlockTag"

definition estimateGasAction ::
  "('s, 'b, 't, 'r) EthModule \<Rightarrow> RpcTransactionRequest \<Rightarrow> blockTag option \<Rightarrow> ('s, jsval) async"
  where
  "estimateGasAction m transactionRequest blockTag =
     await (sync (validateBlockTag blockTag)) (\<lambda>_.
     await (rpcTransactionRequestToNodeTransactionParams m transactionRequest) (\<lambda>txParams.
     await (nodeCall (estimateGas m txParams)) (\<lambda>g.
     resolve (JString (numberToRpcQuantity g)))))"

definition gasPriceParams :: "jsval list \<Rightarrow> error + unit" where
  "gasPriceParams params = validateParams0 params"

definition gasPriceAction :: "('s, 'b, 't, 'r) EthModule \<Rightarrow> ('s, jsval) async" where
  "gasPriceAction m =
     await (nodeCall (getGasPrice m)) (\<lambda>p. resolve (JString (numberToRpcQuantity p)))"

definition getBalanceParams :: "jsval list \<Rightarrow> error + (buffer \<times> blockTag option)" where
  "getBalanceParams params = validateParams2 params rpcAddress optionalBlockTag"

definition getBalanceAction ::
  "('s, 'b, 't, 'r) EthModule \<Rightarrow> buffer \<Rightarrow> blockTag option \<Rightarrow> ('s, jsval) async" where
  "getBalanceAction m address blockTag =
     await (sync (validateBlockTag blockTag)) (\<lambda>_.
     await (nodeCall (getAccountBalance m address)) (\<lambda>b.
     resolve (JString (numberToRpcQuantity b))))"

definition getBlockByHashParams :: "jsval list \<Rightarrow> error + (buffer \<times> bool)" where
  "getBlockByHashParams params = validateParams2 params rpcHash boolean"

definition getBlockByHashAction ::
  "('s, 'b, 't, 'r) EthModule \<Rightarrow> buffer \<Rightarrow> bool \<Rightarrow> ('s, jsval) async" where
  "getBlockByHashAction m hash includeTransactions =
     await (nodeCall (getBlockByHash m hash)) (\<lambda>block.
       case block of
         None \<Rightarrow> resolve JNull
       | Some b \<Rightarrow>
           await (nodeCall (getBlockTotalDifficulty m b)) (\<lambda>totalDifficulty.
           resolve (getRpcBlock m b totalDifficulty includeTransactions)))"

definition getBlockByNumberParams :: "jsval list \<Rightarrow> error + (blockTag option \<times> bool)" where
  "getBlockByNumberParams params = validateParams2 params optionalBlockTag boolean"

text \<open>
  In \<^verbatim>\<open>_getBlockByNumberAction\<close> a tag that is not a string (a number, or
  \<^verbatim>\<open>undefined\<close>) is handed to the node as it is.
\<close>

definition getBlockByNumberAction ::
  "('s, 'b, 't, 'r) EthModule \<Rightarrow> blockTag option \<Rightarrow> bool \<Rightarrow> ('s, jsval) async" where
  "getBlockByNumberAction m tag includeTransactions =
     await
       (case tag of
          Some Earliest \<Rightarrow>
            reject (InvalidInputError
                      ''eth_getBlockByNumber doesn't support earliest nor pending '')
        | Some Pending \<Rightarrow>
            reject (InvalidInputError
                      ''eth_getBlockByNumber doesn't support earliest nor pending '')
        | Some Latest \<Rightarrow> await (nodeCall (getLatestBlock m)) (\<lambda>b. resolve (Some b))
        | Some (BlockNumber n) \<Rightarrow> nodeCall (getBlockByNumber m (Some n))
        | None \<Rightarrow> nodeCall (getBlockByNumber m None))
       (\<lambda>block.
          case block of
            None \<Rightarrow> resolve JNull
          | Some b \<Rightarrow>
              await (nodeCall (getBlockTotalDifficulty m b)) (\<lambda>totalDifficulty.
              resolve (getRpcBlock m b totalDifficulty includeTransactions)))"

definition getBlockTransactionCountByHashParams :: "jsval list \<Rightarrow> error + buffer" where
  "getBlockTransactionCountByHashParams params = validateParams1 params rpcHash"

definition getBlockTransactionCountByHashAction ::
  "('s, 'b, 't, 'r) EthModule \<Rightarrow> buffer \<Rightarrow> ('s, jsval) async" where
  "getBlockTransactionCountByHashAction m hash =
     await (nodeCall (getBlockByHash m hash)) (\<lambda>block.
       case block of
         None \<Rightarrow> resolve JNull
       | Some b \<Rightarrow> resolve (JString (numberToRpcQuantity (length (transactions m b)))))"

definition getBlockTransactionCountByNumberParams :: "jsval list \<Rightarrow> error + nat" where
  "getBlockTransactionCountByNumberParams params = validateParams1 params rpcQuantity"

definition getBlockTransactionCountByNumberAction ::
  "('s, 'b, 't, 'r) EthModule \<Rightarrow> nat \<Rightarrow> ('s, jsval) async" where
  "getBlockTransactionCountByNumberAction m blockNumber =
     await (nodeCall (getBlockByNumber m (Some blockNumber))) (\<lambda>block.
       case block of
         None \<Rightarrow> resolve JNull
       | Some b \<Rightarrow> resolve (JString (numberToRpcQuantity (length (transactions m b)))))"

definition getCodeParams :: "jsval list \<Rightarrow> error + (buffer \<times> blockTag option)" where
  "getCodeParams params = validateParams2 params rpcAddress optionalBlockTag"

definition getCodeAction ::
  "('s, 'b, 't, 'r) EthModule \<Rightarrow> buffer \<Rightarrow> blockTag option \<Rightarrow> ('s, jsval) async" where
  "getCodeAction m address blockTag =
     await (sync (validateBlockTag blockTag)) (\<lambda>_.
     await (nodeCall (getCode m address)) (\<lambda>code.
     resolve (JString (bufferToRpcData code))))"

definition getFilterChangesParams :: "jsval list \<Rightarrow> error + nat" where
  "getFilterChangesParams params = validateParams1 params rpcQuantity"

definition getFilterChangesAction ::
  "('s, 'b, 't, 'r) EthModule \<Rightarrow> nat \<Rightarrow> ('s, jsval) async" where
  "getFilterChangesAction m filterId =
     await (sync (BN_toNumber filterId)) (\<lambda>id'.
     await (nodeCall (getFilterChanges m id')) (\<lambda>changes.
       case changes of
         None \<Rightarrow> resolve JNull
       | Some c \<Rightarrow> resolve c))"

definition getFilterLogsParams :: "jsval list \<Rightarrow> error + nat" where
  "getFilterLogsParams params = validateParams1 params rpcQuantity"

definition getFilterLogsAction ::
  "('s, 'b, 't, 'r) EthModule \<Rightarrow> nat \<Rightarrow> ('s, jsval) async" where
  "getFilterLogsAction m filterId =
     await (sync (BN_toNumber filterId)) (\<lambda>id'.
     await (nodeCall (getFilterLogs m id')) (\<lambda>changes.
       case changes of
         None \<Rightarrow> resolve JNull
       | Some c \<Rightarrow> resolve c))"

definition getLogsParams :: "jsval list \<Rightarrow> error + RpcFilterRequest" where
  "getLogsParams params = validateParams1 params rpcFilterRequest"

definition getLogsAction ::
  "('s, 'b, 't, 'r) EthModule \<Rightarrow> RpcFilterRequest \<Rightarrow> ('s, jsval) async" where
  "getLogsAction m filter' =
     await (rpcFilterRequestToGetLogsParams m filter') (\<lambda>filterParams.
     nodeCall (getLogs m filterParams))"

definition getStorageAtParams ::
  "jsval list \<Rightarrow> error + (buffer \<times> nat \<times> blockTag option)" where
  "getStorageAtParams params = validateParams3 params rpcAddress rpcQuantity optionalBlockTag"

definition getStorageAtAction ::
  "('s, 'b, 't, 'r) EthModule \<Rightarrow> buffer \<Rightarrow> nat \<Rightarrow> blockTag option \<Rightarrow> ('s, jsval) async"
  where
  "getStorageAtAction m address slot blockTag =
     await (sync (validateBlockTag blockTag)) (\<lambda>_.
     await (nodeCall (getStorageAt m address slot)) (\<lambda>data.
       if length data = 0 then resolve (JString ''0x0'')
       else resolve (JString (bufferToRpcData data))))"

definition getTransactionByBlockHashAndIndexParams ::
  "jsval list \<Rightarrow> error + (buffer \<times> nat)" where
  "getTransactionByBlockHashAndIndexParams params = validateParams2 params rpcHash rpcQuantity"

definition getTransactionByBlockHashAndIndexAction ::
  "('s, 'b, 't, 'r) EthModule \<Rightarrow> buffer \<Rightarrow> nat \<Rightarrow> ('s, jsval) async" where
  "getTransactionByBlockHashAndIndexAction m hash index =
     await (sync (BN_toNumber index)) (\<lambda>i.
     await (nodeCall (getBlockByHash m hash)) (\<lambda>block.
       case block of
         None \<Rightarrow> resolve JNull
       | Some b \<Rightarrow>
           if i < length (transactions m b)
           then resolve (getRpcTransaction m (transactions m b ! i) (Some b) (Some (int i)))
           else resolve JNull))"

definition getTransactionByBlockNumberAndIndexParams ::
  "jsval list \<Rightarrow> error + (nat \<times> nat)" where
  "getTransactionByBlockNumberAndIndexParams params =
     validateParams2 params rpcQuantity rpcQuantity"

definition getTransactionByBlockNumberAndIndexAction ::
  "('s, 'b, 't, 'r) EthModule \<Rightarrow> nat \<Rightarrow> nat \<Rightarrow> ('s, jsval) async" where
  "getTransactionByBlockNumberAndIndexAction m blockNumber index =
     await (sync (BN_toNumber index)) (\<lambda>i.
     await (nodeCall (getBlockByNumber m (Some blockNumber))) (\<lambda>block.
       case block of
         None \<Rightarrow> resolve JNull
       | Some b \<Rightarrow>
           if i < length (transactions m b)
           then resolve (getRpcTransaction m (transactions m b ! i) (Some b) (Some (int i)))
           else resolve JNull))"

definition getTransactionByHashParams :: "jsval list \<Rightarrow> error + buffer" where
  "getTransactionByHashParams params = validateParams1 params rpcHash"

definition getTransactionByHashAction ::
  "('s, 'b, 't, 'r) EthModule \<Rightarrow> buffer \<Rightarrow> ('s, jsval) async" where
  "getTransactionByHashAction m hash =
     await (nodeCall (getSuccessfulTransactionByHash m hash)) (\<lambda>tx.
       case tx of
         None \<Rightarrow> resolve JNull
       | Some tx' \<Rightarrow>
           await (nodeCall (getBlockByTransactionHash m hash)) (\<lambda>block.
             resolve
               (getRpcTransaction m tx' block
                  (case block of
                     None \<Rightarrow> None
                   | Some b \<Rightarrow>
                       (let i = findIndex (\<lambda>bt. txHash m bt = hash) (transactions m b)
                        in if i \<noteq> - 1 then Some i else None)))))"

definition getTransactionCountParams :: "jsval list \<Rightarrow> error + (buffer \<times> blockTag option)" where
  "getTransactionCountParams params = validateParams2 params rpcAddress optionalBlockTag"

definition getTransactionCountAction ::
  "('s, 'b, 't, 'r) EthModule \<Rightarrow> buffer \<Rightarrow> blockTag option \<Rightarrow> ('s, jsval) async" where
  "getTransactionCountAction m address blockTag =
     await (sync (validateBlockTag blockTag)) (\<lambda>_.
     await (nodeCall (getAccountNonce m address)) (\<lambda>n.
     resolve (JString (numberToRpcQuantity n))))"

definition getTransactionReceiptParams :: "jsval list \<Rightarrow> error + buffer" where
  "getTransactionReceiptParams params = validateParams1 params rpcHash"

text \<open>
  In \<^verbatim>\<open>_getTransactionReceiptAction\<close> the block is read with a non-null assertion; on
  \<^verbatim>\<open>undefined\<close> the property access \<^verbatim>\<open>block.transactions\<close> throws a TypeError.
\<close>

definition getTransactionReceiptAction ::
  "('s, 'b, 't, 'r) EthModule \<Rightarrow> buffer \<Rightarrow> ('s, jsval) async" where
  "getTransactionReceiptAction m hash =
     await (nodeCall (getSuccessfulTransactionByHash m hash)) (\<lambda>tx.
       case tx of
         None \<Rightarrow> resolve JNull
       | Some tx' \<Rightarrow>
           await (nodeCall (getBlockByTransactionHash m hash)) (\<lambda>block.
             case block of
               None \<Rightarrow> reject (JsError ''Cannot read property 'transactions' of undefined'')
             | Some b \<Rightarrow>
                 await (nodeCall (getTxBlockResults m b)) (\<lambda>txBlockResults.
                 resolve
                   (getRpcTransactionReceipt m tx' b
                      (findIndex (\<lambda>bt. txHash m bt = hash) (transactions m b))
                      txBlockResults))))"

definition miningParams :: "jsval list \<Rightarrow> error + unit" where
  "miningParams params = validateParams0 params"

definition miningAction :: "('s, jsval) async" where
  "miningAction = resolve (JBool False)"

definition newBlockFilterParams :: "jsval list \<Rightarrow> error + unit" where
  "newBlockFilterParams params = Inr ()"

definition newBlockFilterAction :: "('s, 'b, 't, 'r) EthModule \<Rightarrow> ('s, jsval) async" where
  "newBlockFilterAction m =
     await (nodeCall (newBlockFilter m None)) (\<lambda>filterId.
     resolve (JString (numberToRpcQuantity filterId)))"

definition newFilterParams :: "jsval list \<Rightarrow> error + RpcFilterRequest" where
  "newFilterParams params = validateParams1 params rpcFilterRequest"

definition newFilterAction ::
  "('s, 'b, 't, 'r) EthModule \<Rightarrow> RpcFilterRequest \<Rightarrow> ('s, jsval) async" where
  "newFilterAction m filter' =
     await (rpcFilterRequestToGetLogsParams m filter') (\<lambda>filterParams.
     await (nodeCall (newFilter m filterParams None)) (\<lambda>filterId.
     resolve (JString (numberToRpcQuantity filterId))))"

definition newPendingTransactionParams :: "jsval list \<Rightarrow> error + unit" where
  "newPendingTransactionParams params = Inr ()"

definition newPendingTransactionAction ::
  "('s, 'b, 't, 'r) EthModule \<Rightarrow> ('s, jsval) async" where
  "newPendingTransactionAction m =
     await (nodeCall (newPendingTransactionFilter m None)) (\<lambda>filterId.
     resolve (JString (numberToRpcQuantity filterId)))"

definition pendingTransactionsParams :: "jsval list \<Rightarrow> error + unit" where
  "pendingTransactionsParams params = Inr ()"

definition pendingTransactionsAction :: "('s, 'b, 't, 'r) EthModule \<Rightarrow> ('s, jsval) async" where
  "pendingTransactionsAction m =
     await (nodeCall (getPendingTransactions m)) (\<lambda>txs.
     resolve (JArray (map (\<lambda>tx. getRpcTransaction m tx None None) txs)))"

definition sendRawTransactionParams :: "jsval list \<Rightarrow> error + buffer" where
  "sendRawTransactionParams params = validateParams1 params rpcData"

definition sendRawTransactionAction ::
  "('s, 'b, 't, 'r) EthModule \<Rightarrow> buffer \<Rightarrow> ('s, jsval) async" where
  "sendRawTransactionAction m rawTx =
     (case newTransaction m rawTx of
        Inl message \<Rightarrow>
          if message = ''invalid remainder''
          then reject (InvalidInputError ''Invalid transaction'')
          else if string_includes message ''EIP155''
          then reject (InvalidInputError message)
          else reject (JsError message)
      | Inr tx \<Rightarrow>
          await (nodeCall (runTransactionInNewBlock m tx)) (\<lambda>_.
          resolve (JString (bufferToRpcData (txHash m tx)))))"

definition sendTransactionParams :: "jsval list \<Rightarrow> error + RpcTransactionRequest" where
  "sendTransactionParams params = validateParams1 params rpcTransactionRequest"

definition sendTransactionAction ::
  "('s, 'b, 't, 'r) EthModule \<Rightarrow> RpcTransactionRequest \<Rightarrow> ('s, jsval) async" where
  "sendTransactionAction m transactionRequest =
     await (rpcTransactionRequestToNodeTransactionParams m transactionRequest) (\<lambda>txParams.
     await (nodeCall (getSignedTransaction m txParams)) (\<lambda>tx.
     await (nodeCall (runTransactionInNewBlock m tx)) (\<lambda>_.
     resolve (JString (bufferToRpcData (txHash m tx))))))"

definition signParams :: "jsval list \<Rightarrow> error + (buffer \<times> buffer)" where
  "signParams params = validateParams2 params rpcAddress rpcData"

definition signAction ::
  "('s, 'b, 't, 'r) EthModule \<Rightarrow> buffer \<Rightarrow> buffer \<Rightarrow> ('s, jsval) async" where
  "signAction m address data =
     await (nodeCall (signPersonalMessage m address data)) (\<lambda>(v, r, s).
     await (sync (case toRpcSig m v r s of Inl x \<Rightarrow> Inl (JsError x) | Inr sig \<Rightarrow> Inr sig))
       (\<lambda>sig. resolve (JString sig)))"

definition signTypedDataParams :: "jsval list \<Rightarrow> error + (buffer \<times> jsval)" where
  "signTypedDataParams params = validateParams2 params rpcAddress rpcUnknown"

definition signTypedDataAction ::
  "('s, 'b, 't, 'r) EthModule \<Rightarrow> buffer \<Rightarrow> jsval \<Rightarrow> ('s, jsval) async" where
  "signTypedDataAction m address typedData =
     await (nodeCall (signTypedData m address typedData)) (\<lambda>sig. resolve (JString sig))"

text \<open>
  \<^verbatim>\<open>_subscribeParams\<close> pops the last argument, requires it to be a function, validates
  the remaining ones and appends the callback to the validated tuple.
\<close>

definition subscribeParams ::
  "jsval list \<Rightarrow> error + (subscribeRequest \<times> RpcFilterRequest option \<times> nat)" where
  "subscribeParams params =
     (if length params = 0 then Inl (InvalidInputError ''Notifications not supported'')
      else if length params = 1
      then Inl (InvalidInputError ''Expected subscription name as first argument'')
      else case last params of
             JFunction callback \<Rightarrow>
               (case validateParams2 (butlast params) rpcSubscribeRequest
                       optionalRpcFilterRequest of
                  Inl e \<Rightarrow> Inl e
                | Inr (subscribeRequest, optionalFilterRequest) \<Rightarrow>
                    Inr (subscribeRequest, optionalFilterRequest, callback))
           | _ \<Rightarrow> Inl (InvalidInputError ''Notifications not supported''))"

definition subscribeAction ::
  "('s, 'b, 't, 'r) EthModule \<Rightarrow> subscribeRequest \<Rightarrow> RpcFilterRequest option \<Rightarrow> nat
     \<Rightarrow> ('s, jsval) async" where
  "subscribeAction m subscribeRequest optionalFilterRequest callback =
     (case subscribeRequest of
        NewHeads \<Rightarrow>
          await (nodeCall (newBlockFilter m (Some callback))) (\<lambda>filterId.
          resolve (JString (numberToRpcQuantity filterId)))
      | NewPendingTransactions \<Rightarrow>
          await (nodeCall (newPendingTransactionFilter m (Some callback))) (\<lambda>filterId.
          resolve (JString (numberToRpcQuantity filterId)))
      | Logs \<Rightarrow>
          (case optionalFilterRequest of
             None \<Rightarrow> reject (InvalidArgumentsError ''missing params argument'')
           | Some filterRequest \<Rightarrow>
               await (rpcFilterRequestToGetLogsParams m filterRequest) (\<lambda>filterParams.
               await (nodeCall (newFilter m filterParams (Some callback))) (\<lambda>filterId.
               resolve (JString (numberToRpcQuantity filterId))))))"

definition syncingParams :: "jsval list \<Rightarrow> error + unit" where
  "syncingParams params = validateParams0 params"

definition syncingAction :: "('s, jsval) async" where
  "syncingAction = resolve (JBool False)"

definition uninstallFilterParams :: "jsval list \<Rightarrow> error + nat" where
  "uninstallFilterParams params = validateParams1 params rpcQuantity"

definition uninstallFilterAction ::
  "('s, 'b, 't, 'r) EthModule \<Rightarrow> nat \<Rightarrow> ('s, jsval) async" where
  "uninstallFilterAction m filterId =
     await (sync (BN_toNumber filterId)) (\<lambda>id'.
     await (nodeCall (uninstallFilter m id' False)) (\<lambda>b. resolve (JBool b)))"

definition unsubscribeParams :: "jsval list \<Rightarrow> error + nat" where
  "unsubscribeParams params = validateParams1 params rpcQuantity"

definition unsubscribeAction ::
  "('s, 'b, 't, 'r) EthModule \<Rightarrow> nat \<Rightarrow> ('s, jsval) async" where
  "unsubscribeAction m filterId =
     await (sync (BN_toNumber filterId)) (\<lambda>id'.
     await (nodeCall (uninstallFilter m id' True)) (\<lambda>b. resolve (JBool b)))"

section \<open>The dispatcher\<close>

text \<open>
  \<^verbatim>\<open>action(...params(args))\<close>: the parameters are validated first; a validation error
  is the outcome, and the action does not run.
\<close>

definition invoke :: "error + 'a \<Rightarrow> ('a \<Rightarrow> ('s, jsval) async) \<Rightarrow> ('s, jsval) async" where
  "invoke validated action = (case validated of Inl e \<Rightarrow> reject e | Inr args \<Rightarrow> action args)"

definition notSupported :: "string \<Rightarrow> ('s, jsval) async" where
  "notSupported method = reject (MethodNotSupportedError (''Method '' @ method @ '' is not supported''))"

definition processRequest ::
  "('s, 'b, 't, 'r) EthModule \<Rightarrow> string \<Rightarrow> jsval list \<Rightarrow> ('s, jsval) async" where
  "processRequest m method params =
     (if method = ''eth_accounts'' then invoke (accountsParams params) (\<lambda>_. accountsAction m)
      else if method = ''eth_blockNumber''
        then invoke (blockNumberParams params) (\<lambda>_. blockNumberAction m)
      else if method = ''eth_call''
        then invoke (callParams params) (\<lambda>(rpcCall, blockTag). callAction m rpcCall blockTag)
      else if method = ''eth_chainId'' then invoke (chainIdParams params) (\<lambda>_. chainIdAction m)
      else if method = ''eth_coinbase''
        then invoke (coinbaseParams params) (\<lambda>_. coinbaseAction m)
      else if method = ''eth_compileLLL'' then notSupported method
      else if method = ''eth_compileSerpent'' then notSupported method
      else if method = ''eth_compileSolidity'' then notSupported method
      else if method = ''eth_estimateGas''
        then invoke (estimateGasParams params) (\<lambda>(tx, blockTag). estimateGasAction m tx blockTag)
      else if method = ''eth_gasPrice''
        then invoke (gasPriceParams params) (\<lambda>_. gasPriceAction m)
      else if method = ''eth_getBalance''
        then invoke (getBalanceParams params) (\<lambda>(a, blockTag). getBalanceAction m a blockTag)
      else if method = ''eth_getBlockByHash''
        then invoke (getBlockByHashParams params) (\<lambda>(h, full). getBlockByHashAction m h full)
      else if method = ''eth_getBlockByNumber''
        then invoke (getBlockByNumberParams params)
               (\<lambda>(tag, full). getBlockByNumberAction m tag full)
      else if method = ''eth_getBlockTransactionCountByHash''
        then invoke (getBlockTransactionCountByHashParams params)
               (getBlockTransactionCountByHashAction m)
      else if method = ''eth_getBlockTransactionCountByNumber''
        then invoke (getBlockTransactionCountByNumberParams params)
               (getBlockTransactionCountByNumberAction m)
      else if method = ''eth_getCode''
        then invoke (getCodeParams params) (\<lambda>(a, blockTag). getCodeAction m a blockTag)
      else if method = ''eth_getCompilers'' then notSupported method
      else if method = ''eth_getFilterChanges''
        then invoke (getFilterChangesParams params) (getFilterChangesAction m)
      else if method = ''eth_getFilterLogs''
        then invoke (getFilterLogsParams params) (getFilterLogsAction m)
      else if method = ''eth_getLogs'' then invoke (getLogsParams params) (getLogsAction m)
      else if method = ''eth_getProof'' then notSupported method
      else if method = ''eth_getStorageAt''
        then invoke (getStorageAtParams params)
               (\<lambda>(a, slot, blockTag). getStorageAtAction m a slot blockTag)
      else if method = ''eth_getTransactionByBlockHashAndIndex''
        then invoke (getTransactionByBlockHashAndIndexParams params)
               (\<lambda>(h, i). getTransactionByBlockHashAndIndexAction m h i)
      else if method = ''eth_getTransactionByBlockNumberAndIndex''
        then invoke (getTransactionByBlockNumberAndIndexParams params)
               (\<lambda>(n, i). getTransactionByBlockNumberAndIndexAction m n i)
      else if method = ''eth_getTransactionByHash''
        then invoke (getTransactionByHashParams params) (getTransactionByHashAction m)
      else if method = ''eth_getTransactionCount''
        then invoke (getTransactionCountParams params)
               (\<lambda>(a, blockTag). getTransactionCountAction m a blockTag)
      else if method = ''eth_getTransactionReceipt''
        then invoke (getTransactionReceiptParams params) (getTransactionReceiptAction m)
      else if method = ''eth_getUncleByBlockHashAndIndex'' then notSupported method
      else if method = ''eth_getUncleByBlockNumberAndIndex'' then notSupported method
      else if method = ''eth_getUncleCountByBlockHash'' then notSupported method
      else if method = ''eth_getUncleCountByBlockNumber'' then notSupported method
      else if method = ''eth_getWork'' then notSupported method
      else if method = ''eth_hashrate'' then notSupported method
      else if method = ''eth_mining'' then invoke (miningParams params) (\<lambda>_. miningAction)
      else if method = ''eth_newBlockFilter''
        then invoke (newBlockFilterParams params) (\<lambda>_. newBlockFilterAction m)
      else if method = ''eth_newFilter''
        then invoke (newFilterParams params) (newFilterAction m)
      else if method = ''eth_newPendingTransactionFilter''
        then invoke (newPendingTransactionParams params) (\<lambda>_. newPendingTransactionAction m)
      else if method = ''eth_pendingTransactions''
        then invoke (pendingTransactionsParams params) (\<lambda>_. pendingTransactionsAction m)
      else if method = ''eth_protocolVersion'' then notSupported method
      else if method = ''eth_sendRawTransaction''
        then invoke (sendRawTransactionParams params) (sendRawTransactionAction m)
      else if method = ''eth_sendTransaction''
        then invoke (sendTransactionParams params) (sendTransactionAction m)
      else if method = ''eth_sign''
        then invoke (signParams params) (\<lambda>(a, d). signAction m a d)
      else if method = ''eth_signTransaction'' then notSupported method
      else if method = ''eth_signTypedData''
        then invoke (signTypedDataParams params) (\<lambda>(a, d). signTypedDataAction m a d)
      else if method = ''eth_submitHashrate'' then notSupported method
      else if method = ''eth_submitWork'' then notSupported method
      else if method = ''eth_subscribe''
        then invoke (subscribeParams params)
               (\<lambda>(r, f, callback). subscribeAction m r f callback)
      else if method = ''eth_syncing'' then invoke (syncingParams params) (\<lambda>_. syncingAction)
      else if method = ''eth_uninstallFilter''
        then invoke (uninstallFilterParams params) (uninstallFilterAction m)
      else if method = ''eth_unsubscribe''
        then invoke (unsubscribeParams params) (unsubscribeAction m)
      else reject (MethodNotFoundError (''Method '' @ method @ '' not found'')))"

section \<open>The method tables of the specification\<close>



text \<open>The two failures that belong to the dispatcher alone.\<close>

definition dispatchError :: "error \<Rightarrow> bool" where
  "dispatchError e =
     (case e of
        MethodNotFoundError _ \<Rightarrow> True
      | MethodNotSupportedError _ \<Rightarrow> True
      | _ \<Rightarrow> False)"

definition dispatchFailure :: "error + 'a \<Rightarrow> bool" where
  "dispatchFailure r = (case r of Inl e \<Rightarrow> dispatchError e | Inr _ \<Rightarrow> False)"


text \<open>A function value, as \<^verbatim>\<open>typeof v === "function"\<close> tests it.\<close>

definition isFunction :: "jsval \<Rightarrow> bool" where
  "isFunction v = (case v of JFunction _ \<Rightarrow> True | _ \<Rightarrow> False)"

section \<open>A small node, for concrete runs\<close>

text \<open>
  A node whose state is the next filter id and the height of the chain, with one local
  account. A block is its number and a transaction is its raw bytes. The transaction
  constructor rejects the empty input with \<^verbatim>\<open>invalid remainder\<close>, the input \<open>[1]\<close> with a
  message that mentions EIP155, and the input \<open>[2]\<close> with another message.
\<close>

definition demoModule :: "(nat \<times> nat, nat, buffer, unit) EthModule" where
  "demoModule =
     \<lparr>chainId = 31337,
      getLocalAccountAddresses =
        (\<lambda>s. (Inr [''0x00000000000000000000000000000000000000aa''], s)),
      getLatestBlock = (\<lambda>s. (Inr (snd s), s)),
      runCall = (\<lambda>cp s. (Inr (cp_data cp), s)),
      getCoinbaseAddress = (\<lambda>s. (Inr (replicate 20 0), s)),
      estimateGas = (\<lambda>tp s. (Inr 21000, s)),
      getGasPrice = (\<lambda>s. (Inr 8000000000, s)),
      getBlockGasLimit = (\<lambda>s. (Inr 9500000, s)),
      getAccountBalance = (\<lambda>a s. (Inr 1000, s)),
      getAccountNonce = (\<lambda>a s. (Inr (snd s), s)),
      getCode = (\<lambda>a s. (Inr [], s)),
      getStorageAt = (\<lambda>a slot s. (Inr (if slot = 0 then [] else [1, 2]), s)),
      getBlockByHash = (\<lambda>h s. (Inr (if h = replicate 32 1 then Some 7 else None), s)),
      getBlockByNumber =
        (\<lambda>n s. (Inr (case n of None \<Rightarrow> None
                        | Some k \<Rightarrow> if k \<le> snd s then Some k else None), s)),
      getBlockTotalDifficulty = (\<lambda>b s. (Inr b, s)),
      getBlockByTransactionHash = (\<lambda>h s. (Inr None, s)),
      getSuccessfulTransactionByHash = (\<lambda>h s. (Inr None, s)),
      getTxBlockResults = (\<lambda>b s. (Inr None, s)),
      getPendingTransactions = (\<lambda>s. (Inr [], s)),
      getSignedTransaction = (\<lambda>tp s. (Inr (tp_data tp), s)),
      runTransactionInNewBlock = (\<lambda>tx s. (Inr (), (fst s, Suc (snd s)))),
      signPersonalMessage = (\<lambda>a d s. (Inl ''unknown account'', s)),
      signTypedData = (\<lambda>a d s. (Inl ''unknown account'', s)),
      newBlockFilter = (\<lambda>callback s. (Inr (fst s), (Suc (fst s), snd s))),
      newPendingTransactionFilter = (\<lambda>callback s. (Inr (fst s), (Suc (fst s), snd s))),
      newFilter = (\<lambda>fp callback s. (Inr (fst s), (Suc (fst s), snd s))),
      getFilterChanges = (\<lambda>i s. (Inr (if i < fst s then Some (JArray []) else None), s)),
      getFilterLogs = (\<lambda>i s. (Inr (if i < fst s then Some (JArray []) else None), s)),
      getLogs = (\<lambda>fp s. (Inr (JArray []), s)),
      uninstallFilter = (\<lambda>i subscription s. (Inr (i < fst s), s)),
      newTransaction =
        (\<lambda>rawTx. if rawTx = [] then Inl ''invalid remainder''
                 else if rawTx = [1] then Inl ''Incompatible EIP155-based V 37 and chain id 1''
                 else if rawTx = [2] then Inl ''invalid rlp: total length is larger than the data''
                 else Inr rawTx),
      txHash = (\<lambda>tx. tx),
      headerNumber = (\<lambda>b. b),
      transactions = (\<lambda>b. []),
      toRpcSig = (\<lambda>v r s. Inl ''Invalid signature v value''),
      getRpcBlock = (\<lambda>b totalDifficulty full. JObject [(''number'', JString (numberToRpcQuantity b))]),
      getRpcTransaction = (\<lambda>tx b i. JString (bufferToRpcData tx)),
      getRpcTransactionReceipt = (\<lambda>tx b i r. JNull)\<rparr>"

section \<open>Basic facts about promises\<close>

lemma await_resolve: "await (resolve a) f = f a"
  by (simp add: await_def resolve_def)

lemma await_reject: "await (reject e) f = reject e"
  by (simp add: await_def reject_def)

lemma await_sync_Inr: "await (sync (Inr a)) f = f a"
  by (simp add: await_def sync_def)

lemma await_sync_Inl: "await (sync (Inl e)) f = reject e"
  by (simp add: await_def sync_def reject_def)

lemma await_apply_Inr: "p s = (Inr a, s') \<Longrightarrow> await p f s = f a s'"
  by (simp add: await_def)

lemma await_apply_Inl: "p s = (Inl e, s') \<Longrightarrow> await p f s = (Inl e, s')"
  by (simp add: await_def)

lemma nodeCall_Inr: "operation s = (Inr a, s') \<Longrightarrow> nodeCall operation s = (Inr a, s')"
  by (simp add: nodeCall_def)

lemma nodeCall_Inl: "operation s = (Inl x, s') \<Longrightarrow> nodeCall operation s = (Inl (NodeFailure x), s')"
  by (simp add: nodeCall_def)

section \<open>Filter criteria: addresses and topics\<close>

lemma pushLogTopics_map:
  "pushLogTopics ts acc =
     acc @ map (\<lambda>t. case t of TopicHash h \<Rightarrow> Some [Some h] | TopicList l \<Rightarrow> Some l
                      | TopicNull \<Rightarrow> None) ts"
  by (induction ts arbitrary: acc) simp_all

text \<open>
  Claim C8. An absent address becomes the empty list, a single address a one-element
  list, and a list of addresses is passed through as it is. Absent or empty topics become
  the empty list; otherwise the slots are translated one by one, in order: a bare hash
  becomes a list with that single alternative, a list stays that list, and null stays
  null ("any"). These are the addresses and topics of the criteria built from a request.
\<close>

theorem extractLogAddresses_and_topics:
  "extractLogAddresses None = []
   \<and> extractLogAddresses (Some (OneAddress a)) = [a]
   \<and> extractLogAddresses (Some (AddressList as)) = as
   \<and> extractLogTopics None = []
   \<and> extractLogTopics (Some []) = []
   \<and> extractLogTopics (Some ts) =
       map (\<lambda>t. case t of TopicHash h \<Rightarrow> Some [Some h] | TopicList l \<Rightarrow> Some l
                   | TopicNull \<Rightarrow> None) ts
   \<and> (case buildFilterParams request of
         Inl e \<Rightarrow> True
       | Inr criteria \<Rightarrow>
           fp_addresses criteria = extractLogAddresses (rf_address request)
           \<and> fp_topics criteria = extractLogTopics (rf_topics request))"
  by (auto simp: extractLogAddresses_def extractLogTopics_def pushLogTopics_map
      buildFilterParams_def split: sum.splits)

section \<open>Facts about the wire codec\<close>

lemma digitValue_hexDigit_table: "map (\<lambda>d. digitValue (hexDigit d)) [0..<16] = [0..<16]"
  by code_simp
lemma digitValue_hexDigit: 
  assumes "d < 16" shows "digitValue (hexDigit d) = d"
proof -
  have "map (\<lambda>d. digitValue (hexDigit d)) [0..<16] ! d = [0..<16] ! d"
    by (simp only: digitValue_hexDigit_table)
  with assms show ?thesis by simp
qed
lemma isHexChar_hexDigit_table: "list_all (\<lambda>d. isHexChar (hexDigit d)) [0..<16]"
  by code_simp
lemma isHexChar_hexDigit: "d < 16 \<Longrightarrow> isHexChar (hexDigit d)"
  using isHexChar_hexDigit_table by (simp add: list_all_iff)

lemma byte_nibbles: "unat (b :: 8 word) div 16 < 16" "unat b mod 16 < 16"
proof -
  have "unat b < 256" using unsigned_less [of b] by simp
  then show "unat b div 16 < 16" by simp
  show "unat b mod 16 < 16" by simp
qed

lemma hexToBytes_byteToHex: "hexToBytes (concat (map byteToHex bs)) = bs"
proof (induction bs)
  case Nil
  show ?case by simp
next
  case (Cons b bs)
  have "16 * (unat b div 16) + unat b mod 16 = unat b" by simp
  then show ?case using Cons
    by (simp add: byteToHex_def digitValue_hexDigit byte_nibbles)
qed

lemma isHexChar_bytes: "list_all isHexChar (concat (map byteToHex bs))"
  by (induction bs) (simp_all add: byteToHex_def isHexChar_hexDigit byte_nibbles)

lemma length_bytes: "length (concat (map byteToHex bs)) = 2 * length bs"
  by (induction bs) (simp_all add: byteToHex_def)

lemma decodeData_bufferToRpcData: "decodeData (bufferToRpcData bs) = Some bs"
  by (simp add: decodeData_def bufferToRpcData_def isHexChar_bytes length_bytes hexToBytes_byteToHex)

section \<open>Block references of a filter range\<close>

text \<open>
  Claim C7, as the code has it. In a filter range the tag "earliest" resolves to block
  number 0, an absent tag and the tag "latest" both resolve to the sentinel \<open>-1\<close> (the
  head, tracked dynamically), and the tag "pending" fails with InvalidArguments. An
  explicit block number below \<open>2 ^ 53\<close> resolves to that same number; a larger one does
  not resolve: the conversion of the big number to a JavaScript number fails.
\<close>

theorem extractBlock_cases:
  "extractBlock (Some Earliest) = Inr 0
   \<and> extractBlock None = Inr (- 1)
   \<and> extractBlock (Some Latest) = Inr (- 1)
   \<and> extractBlock (Some Pending) = Inl (InvalidArgumentsError ''pending not supported'')
   \<and> (n < 2 ^ 53 \<longrightarrow> extractBlock (Some (BlockNumber n)) = Inr (int n))
   \<and> (2 ^ 53 \<le> n \<longrightarrow> extractBlock (Some (BlockNumber n))
         = Inl (JsError ''Number can only safely store up to 53 bits''))"
proof (intro conjI impI)
  show "extractBlock (Some Earliest) = Inr 0"
    and "extractBlock None = Inr (- 1)"
    and "extractBlock (Some Latest) = Inr (- 1)"
    and "extractBlock (Some Pending) = Inl (InvalidArgumentsError ''pending not supported'')"
    by simp_all
next
  assume "n < 2 ^ 53"
  then have "BN_toNumber n = Inr n"
    by (simp add: BN_toNumber_def)
  then show "extractBlock (Some (BlockNumber n)) = Inr (int n)"
    by simp
next
  assume "2 ^ 53 \<le> n"
  then have "BN_toNumber n = Inl (JsError ''Number can only safely store up to 53 bits'')"
    by (simp add: BN_toNumber_def)
  then show "extractBlock (Some (BlockNumber n))
         = Inl (JsError ''Number can only safely store up to 53 bits'')"
    by simp
qed

theorem extractBlock_cases_witness:
  "extractBlock (Some (BlockNumber 1234)) = Inr 1234
   \<and> extractBlock (Some (BlockNumber (2 ^ 60)))
       = Inl (JsError ''Number can only safely store up to 53 bits'')"
  using extractBlock_cases [of 1234] extractBlock_cases [of "2 ^ 60"] by simp

text \<open>
  The claim as the specification states it (every explicit block number resolves to
  itself) fails at the block number \<open>2 ^ 53\<close>, which the wire format admits as the
  quantity \<^verbatim>\<open>0x20000000000000\<close>.
\<close>

theorem extractBlock_large_number:
  "extractBlock (Some (BlockNumber (2 ^ 53)))
     = Inl (JsError ''Number can only safely store up to 53 bits'')"
  by (simp add: BN_toNumber_def)

section \<open>Storage reads\<close>

text \<open>
  Claim C10. An \<^verbatim>\<open>eth_getStorageAt\<close> request whose block tag is accepted and whose
  storage read the node answers with the bytes \<open>data\<close> returns the string \<^verbatim>\<open>0x0\<close> when
  \<open>data\<close> is empty and the data encoding of \<open>data\<close> otherwise. The data encoding starts
  with \<^verbatim>\<open>0x\<close>, has an even number of digits and decodes back to the bytes; the empty
  byte sequence would be \<^verbatim>\<open>0x\<close> in it. The string \<^verbatim>\<open>0x0\<close> is a quantity (zero) and is
  not the data encoding of anything, so the two cases are encoded differently.
\<close>

theorem getStorageAt_encoding:
  assumes "validateBlockTag blockTag = Inr ()"
    and "getStorageAt m address slot s = (Inr data, s')"
  shows "getStorageAtAction m address slot blockTag s =
           (Inr (JString (if length data = 0 then ''0x0'' else bufferToRpcData data)), s')
         \<and> decodeData (bufferToRpcData data) = Some data
         \<and> take 2 (bufferToRpcData data) = ''0x''
         \<and> even (length (bufferToRpcData data))
         \<and> bufferToRpcData [] = ''0x''
         \<and> decodeData ''0x0'' = None
         \<and> decodeQuantity ''0x0'' = Some 0"
proof -
  have "getStorageAtAction m address slot blockTag s =
           (Inr (JString (if length data = 0 then ''0x0'' else bufferToRpcData data)), s')"
    using assms
    by (simp add: getStorageAtAction_def await_def sync_def nodeCall_def resolve_def)
  moreover have "decodeData ''0x0'' = None"
    by (simp add: decodeData_def)
  moreover have "decodeQuantity ''0x0'' = Some 0"
    by (simp add: decodeQuantity_def hexToNat_def digitValue_def hexValue_def isHexChar_def)
  ultimately show ?thesis
    by (simp add: decodeData_bufferToRpcData) (simp add: bufferToRpcData_def length_bytes)
qed

theorem getStorageAt_encoding_witness:
  "getStorageAtAction demoModule (replicate 20 0) 0 None (0, 0) = (Inr (JString ''0x0''), (0, 0))
   \<and> getStorageAtAction demoModule (replicate 20 0) 1 (Some Latest) (0, 0)
       = (Inr (JString ''0x0102''), (0, 0))"
proof -
  have a: "validateBlockTag None = Inr ()" and b: "validateBlockTag (Some Latest) = Inr ()"
    by (simp_all add: validateBlockTag_def)
  have c: "getStorageAt demoModule (replicate 20 0) 0 (0, 0) = (Inr [], (0, 0))"
    by (simp add: demoModule_def)
  have d: "getStorageAt demoModule (replicate 20 0) 1 (0, 0) = (Inr [1, 2], (0, 0))"
    by (simp add: demoModule_def)
  have e: "bufferToRpcData [1, 2] = ''0x0102''"
    by (simp add: bufferToRpcData_def byteToHex_def hexDigit_def)
  show ?thesis
    using getStorageAt_encoding [OF a c] getStorageAt_encoding [OF b d] e by simp
qed


section \<open>Raw transactions\<close>

lemma invalid_remainder_no_EIP155: "\<not> string_includes ''invalid remainder'' ''EIP155''"
  unfolding string_includes_def by code_simp

text \<open>
  Claim C4. When the transaction constructor rejects the raw bytes of an
  \<^verbatim>\<open>eth_sendRawTransaction\<close> request with the message \<open>msg\<close>: if \<open>msg\<close> is
  \<^verbatim>\<open>invalid remainder\<close> the request fails with InvalidInput "Invalid transaction"; if
  \<open>msg\<close> mentions \<^verbatim>\<open>EIP155\<close> it fails with InvalidInput carrying \<open>msg\<close>; otherwise the
  constructor's error is the outcome, unchanged. In all three cases the node's state is
  the one before the request, and the outcome does not depend on the node's
  \<^verbatim>\<open>runTransactionInNewBlock\<close>: it is not invoked.
\<close>

theorem sendRawTransaction_decode_failure:
  assumes "newTransaction m rawTx = Inl msg"
  shows "(msg = ''invalid remainder'' \<longrightarrow>
            sendRawTransactionAction m rawTx s
              = (Inl (InvalidInputError ''Invalid transaction''), s))
         \<and> (string_includes msg ''EIP155'' \<longrightarrow>
            sendRawTransactionAction m rawTx s = (Inl (InvalidInputError msg), s))
         \<and> (msg \<noteq> ''invalid remainder'' \<and> \<not> string_includes msg ''EIP155'' \<longrightarrow>
            sendRawTransactionAction m rawTx s = (Inl (JsError msg), s))
         \<and> sendRawTransactionAction (m\<lparr>runTransactionInNewBlock := operation\<rparr>) rawTx s
             = sendRawTransactionAction m rawTx s"
  using assms invalid_remainder_no_EIP155
  by (auto simp: sendRawTransactionAction_def reject_def)

theorem sendRawTransaction_decode_failure_witness:
  "sendRawTransactionAction demoModule [] (0, 5)
     = (Inl (InvalidInputError ''Invalid transaction''), (0, 5))
   \<and> sendRawTransactionAction demoModule [1] (0, 5)
     = (Inl (InvalidInputError ''Incompatible EIP155-based V 37 and chain id 1''), (0, 5))
   \<and> sendRawTransactionAction demoModule [2] (0, 5)
     = (Inl (JsError ''invalid rlp: total length is larger than the data''), (0, 5))
   \<and> sendRawTransactionAction demoModule [3] (0, 5) = (Inr (JString ''0x03''), (0, 6))"
proof -
  have a: "newTransaction demoModule [] = Inl ''invalid remainder''"
    and b: "newTransaction demoModule [1] = Inl ''Incompatible EIP155-based V 37 and chain id 1''"
    and c: "newTransaction demoModule [2]
              = Inl ''invalid rlp: total length is larger than the data''"
    by (simp_all add: demoModule_def)
  have b': "string_includes ''Incompatible EIP155-based V 37 and chain id 1'' ''EIP155''"
    unfolding string_includes_def by code_simp
  have c': "\<not> string_includes ''invalid rlp: total length is larger than the data'' ''EIP155''"
    unfolding string_includes_def by code_simp
  have d: "sendRawTransactionAction demoModule [3] (0, 5) = (Inr (JString ''0x03''), (0, 6))"
    by (simp add: sendRawTransactionAction_def demoModule_def await_def nodeCall_def resolve_def
        bufferToRpcData_def byteToHex_def hexDigit_def)
  show ?thesis
    using sendRawTransaction_decode_failure [OF a, of "(0, 5)"]
      sendRawTransaction_decode_failure [OF b, of "(0, 5)"]
      sendRawTransaction_decode_failure [OF c, of "(0, 5)"] b' c' d
    by simp
qed


section \<open>Quantities decode back\<close>

lemma toHex_small: "n < 16 \<Longrightarrow> toHex n = [hexDigit n]"
  by (subst toHex.simps) simp

lemma toHex_large: "\<not> n < 16 \<Longrightarrow> toHex n = toHex (n div 16) @ [hexDigit (n mod 16)]"
  by (subst toHex.simps) simp

lemma toHex_nonempty: "toHex n \<noteq> []"
  by (cases "n < 16") (simp_all add: toHex_small toHex_large)

lemma isHexChar_toHex: "list_all isHexChar (toHex n)"
proof (induction n rule: toHex.induct)
  case (1 n)
  show ?case
  proof (cases "n < 16")
    case True
    then show ?thesis by (simp add: toHex_small isHexChar_hexDigit)
  next
    case False
    with 1 show ?thesis by (simp add: toHex_large isHexChar_hexDigit)
  qed
qed

lemma hexToNat_toHex: "hexToNat (toHex n) = n"
proof (induction n rule: toHex.induct)
  case (1 n)
  show ?case
  proof (cases "n < 16")
    case True
    then show ?thesis by (simp add: toHex_small hexToNat_def digitValue_hexDigit)
  next
    case False
    with 1 have "hexToNat (toHex (n div 16)) = n div 16" by simp
    with False show ?thesis
      by (simp add: toHex_large hexToNat_def digitValue_hexDigit)
  qed
qed

lemma hexDigit_zero: "d < 16 \<Longrightarrow> hexDigit d = CHR ''0'' \<Longrightarrow> d = 0"
proof -
  assume lt: "d < 16" and z: "hexDigit d = CHR ''0''"
  from lt have "digitValue (hexDigit d) = d" by (rule digitValue_hexDigit)
  with z show "d = 0" by (simp add: digitValue_def hexValue_def)
qed

lemma hd_toHex: "hd (toHex n) = CHR ''0'' \<Longrightarrow> n < 16"
proof (induction n rule: toHex.induct)
  case (1 n)
  show ?case
  proof (cases "n < 16")
    case True
    then show ?thesis .
  next
    case False
    then have "hd (toHex n) = hd (toHex (n div 16))"
      by (simp add: toHex_large toHex_nonempty)
    with 1 False have "n div 16 < 16" by simp
    with 1 False \<open>hd (toHex n) = hd (toHex (n div 16))\<close>
    have "hexDigit (n div 16) = CHR ''0''" by (simp add: toHex_small)
    with \<open>n div 16 < 16\<close> have "n div 16 = 0" by (rule hexDigit_zero)
    with False show ?thesis by simp
  qed
qed

lemma leading_zero: "hd (toHex n) = CHR ''0'' \<Longrightarrow> toHex n = ''0''"
proof -
  assume z: "hd (toHex n) = CHR ''0''"
  then have lt: "n < 16" by (rule hd_toHex)
  with z have "hexDigit n = CHR ''0''" by (simp add: toHex_small)
  with lt show ?thesis by (simp add: toHex_small)
qed

lemma decodeQuantity_numberToRpcQuantity: "decodeQuantity (numberToRpcQuantity n) = Some n"
  using leading_zero [of n]
  by (auto simp: decodeQuantity_def numberToRpcQuantity_def toHex_nonempty isHexChar_toHex
      hexToNat_toHex)

section \<open>Filter requests that name a block hash\<close>

lemma buildFilterParams_numbers:
  assumes "n < 2 ^ 53"
  shows "buildFilterParams (f\<lparr>rf_fromBlock := Some (BlockNumber n), rf_toBlock := Some (BlockNumber n)\<rparr>)
           = Inr \<lparr>fp_fromBlock = int n, fp_toBlock = int n,
                  fp_topics = extractLogTopics (rf_topics f),
                  fp_addresses = extractLogAddresses (rf_address f)\<rparr>"
  using assms by (simp add: buildFilterParams_def BN_toNumber_def)

lemma buildFilterParams_numbers_only:
  assumes "buildFilterParams (f\<lparr>rf_fromBlock := Some (BlockNumber n), rf_toBlock := Some (BlockNumber n)\<rparr>)
           = Inr fp"
  shows "fp_fromBlock fp = int n \<and> fp_toBlock fp = int n"
  using assms by (auto simp: buildFilterParams_def BN_toNumber_def split: if_splits)

text \<open>
  Claim C2. For a filter request that carries \<^verbatim>\<open>blockHash\<close>, as \<^verbatim>\<open>eth_getLogs\<close>,
  \<^verbatim>\<open>eth_newFilter\<close> and the logs branch of \<^verbatim>\<open>eth_subscribe\<close> normalize it: with
  \<^verbatim>\<open>fromBlock\<close> or \<^verbatim>\<open>toBlock\<close> also present, the request fails with InvalidArguments
  (mutually exclusive) and the node is not asked; with \<^verbatim>\<open>blockHash\<close> alone and no block
  of that hash in the node, it fails with InvalidArguments (cannot be found); with
  \<^verbatim>\<open>blockHash\<close> alone and a block of that hash, whatever criteria result have both
  \<^verbatim>\<open>fromBlock\<close> and \<^verbatim>\<open>toBlock\<close> equal to the block's number, and criteria do result,
  with the topics and addresses of the request, for every block number below \<open>2 ^ 53\<close>.
\<close>

theorem filter_blockHash:
  assumes "rf_blockHash f = Some h"
  shows "(rf_fromBlock f \<noteq> None \<or> rf_toBlock f \<noteq> None \<longrightarrow>
            rpcFilterRequestToGetLogsParams m f s
              = (Inl (InvalidArgumentsError
                        ''blockHash is mutually exclusive with fromBlock/toBlock''), s)
            \<and> getLogsAction m f s
              = (Inl (InvalidArgumentsError
                        ''blockHash is mutually exclusive with fromBlock/toBlock''), s)
            \<and> newFilterAction m f s
              = (Inl (InvalidArgumentsError
                        ''blockHash is mutually exclusive with fromBlock/toBlock''), s)
            \<and> subscribeAction m Logs (Some f) callback s
              = (Inl (InvalidArgumentsError
                        ''blockHash is mutually exclusive with fromBlock/toBlock''), s))
         \<and> (rf_fromBlock f = None \<and> rf_toBlock f = None
             \<and> getBlockByHash m h s = (Inr None, s') \<longrightarrow>
            rpcFilterRequestToGetLogsParams m f s
              = (Inl (InvalidArgumentsError ''blockHash cannot be found''), s')
            \<and> getLogsAction m f s
              = (Inl (InvalidArgumentsError ''blockHash cannot be found''), s')
            \<and> newFilterAction m f s
              = (Inl (InvalidArgumentsError ''blockHash cannot be found''), s')
            \<and> subscribeAction m Logs (Some f) callback s
              = (Inl (InvalidArgumentsError ''blockHash cannot be found''), s'))
         \<and> (rf_fromBlock f = None \<and> rf_toBlock f = None
             \<and> getBlockByHash m h s = (Inr (Some b), s') \<longrightarrow>
            (\<forall>fp s''. rpcFilterRequestToGetLogsParams m f s = (Inr fp, s'') \<longrightarrow>
               fp_fromBlock fp = int (headerNumber m b)
               \<and> fp_toBlock fp = int (headerNumber m b))
            \<and> (headerNumber m b < 2 ^ 53 \<longrightarrow>
                 rpcFilterRequestToGetLogsParams m f s
                   = (Inr \<lparr>fp_fromBlock = int (headerNumber m b),
                           fp_toBlock = int (headerNumber m b),
                           fp_topics = extractLogTopics (rf_topics f),
                           fp_addresses = extractLogAddresses (rf_address f)\<rparr>, s')))"
proof (intro conjI impI allI)
  assume excl: "rf_fromBlock f \<noteq> None \<or> rf_toBlock f \<noteq> None"
  show a: "rpcFilterRequestToGetLogsParams m f s
      = (Inl (InvalidArgumentsError ''blockHash is mutually exclusive with fromBlock/toBlock''), s)"
    using assms excl by (auto simp: rpcFilterRequestToGetLogsParams_def reject_def)
  show "getLogsAction m f s
      = (Inl (InvalidArgumentsError ''blockHash is mutually exclusive with fromBlock/toBlock''), s)"
    using a by (simp add: getLogsAction_def await_def)
  show "newFilterAction m f s
      = (Inl (InvalidArgumentsError ''blockHash is mutually exclusive with fromBlock/toBlock''), s)"
    using a by (simp add: newFilterAction_def await_def)
  show "subscribeAction m Logs (Some f) callback s
      = (Inl (InvalidArgumentsError ''blockHash is mutually exclusive with fromBlock/toBlock''), s)"
    using a by (simp add: subscribeAction_def await_def)
next
  assume h: "rf_fromBlock f = None \<and> rf_toBlock f = None \<and> getBlockByHash m h s = (Inr None, s')"
  show a: "rpcFilterRequestToGetLogsParams m f s
      = (Inl (InvalidArgumentsError ''blockHash cannot be found''), s')"
    using assms h
    by (simp add: rpcFilterRequestToGetLogsParams_def await_def nodeCall_def reject_def)
  show "getLogsAction m f s = (Inl (InvalidArgumentsError ''blockHash cannot be found''), s')"
    using a by (simp add: getLogsAction_def await_def)
  show "newFilterAction m f s = (Inl (InvalidArgumentsError ''blockHash cannot be found''), s')"
    using a by (simp add: newFilterAction_def await_def)
  show "subscribeAction m Logs (Some f) callback s
      = (Inl (InvalidArgumentsError ''blockHash cannot be found''), s')"
    using a by (simp add: subscribeAction_def await_def)
next
  fix fp s''
  assume h: "rf_fromBlock f = None \<and> rf_toBlock f = None
             \<and> getBlockByHash m h s = (Inr (Some b), s')"
    and r: "rpcFilterRequestToGetLogsParams m f s = (Inr fp, s'')"
  have "rpcFilterRequestToGetLogsParams m f s
      = sync (buildFilterParams (f\<lparr>rf_fromBlock := Some (BlockNumber (headerNumber m b)),
                                    rf_toBlock := Some (BlockNumber (headerNumber m b))\<rparr>)) s'"
    using assms h
    by (simp add: rpcFilterRequestToGetLogsParams_def await_def nodeCall_def)
  with r have "buildFilterParams (f\<lparr>rf_fromBlock := Some (BlockNumber (headerNumber m b)),
                                    rf_toBlock := Some (BlockNumber (headerNumber m b))\<rparr>) = Inr fp"
    by (simp add: sync_def)
  then show "fp_fromBlock fp = int (headerNumber m b)" "fp_toBlock fp = int (headerNumber m b)"
    using buildFilterParams_numbers_only by blast+
next
  assume h: "rf_fromBlock f = None \<and> rf_toBlock f = None
             \<and> getBlockByHash m h s = (Inr (Some b), s')"
    and n: "headerNumber m b < 2 ^ 53"
  show "rpcFilterRequestToGetLogsParams m f s
          = (Inr \<lparr>fp_fromBlock = int (headerNumber m b),
                  fp_toBlock = int (headerNumber m b),
                  fp_topics = extractLogTopics (rf_topics f),
                  fp_addresses = extractLogAddresses (rf_address f)\<rparr>, s')"
    using assms h
    by (simp add: rpcFilterRequestToGetLogsParams_def await_def nodeCall_def sync_def
        buildFilterParams_numbers [OF n])
qed

theorem filter_blockHash_witness:
  "rpcFilterRequestToGetLogsParams demoModule
     \<lparr>rf_fromBlock = Some Earliest, rf_toBlock = None, rf_address = None, rf_topics = None,
      rf_blockHash = Some (replicate 32 1)\<rparr> (0, 9)
     = (Inl (InvalidArgumentsError ''blockHash is mutually exclusive with fromBlock/toBlock''),
        (0, 9))
   \<and> rpcFilterRequestToGetLogsParams demoModule
     \<lparr>rf_fromBlock = None, rf_toBlock = None, rf_address = None, rf_topics = None,
      rf_blockHash = Some (replicate 32 2)\<rparr> (0, 9)
     = (Inl (InvalidArgumentsError ''blockHash cannot be found''), (0, 9))
   \<and> rpcFilterRequestToGetLogsParams demoModule
     \<lparr>rf_fromBlock = None, rf_toBlock = None, rf_address = None, rf_topics = None,
      rf_blockHash = Some (replicate 32 1)\<rparr> (0, 9)
     = (Inr \<lparr>fp_fromBlock = 7, fp_toBlock = 7, fp_topics = [], fp_addresses = []\<rparr>, (0, 9))"
proof -
  let ?f = "\<lambda>from' h. \<lparr>rf_fromBlock = from', rf_toBlock = None, rf_address = None,
                        rf_topics = None, rf_blockHash = Some (replicate 32 h)\<rparr>"
  have neq: "replicate 32 (2 :: 8 word) \<noteq> replicate 32 1"
    by (simp add: numeral_eq_Suc)
  have found: "getBlockByHash demoModule (replicate 32 1) (0, 9) = (Inr (Some 7), (0, 9))"
    by (simp add: demoModule_def)
  have missing: "getBlockByHash demoModule (replicate 32 2) (0, 9) = (Inr None, (0, 9))"
    using neq by (simp add: demoModule_def)
  have number: "headerNumber demoModule 7 = 7"
    by (simp add: demoModule_def)
  have "rf_blockHash (?f (Some Earliest) 1) = Some (replicate 32 1)"
    and "rf_blockHash (?f None 2) = Some (replicate 32 2)"
    and "rf_blockHash (?f None 1) = Some (replicate 32 1)"
    by simp_all
  from filter_blockHash [OF this(1), of demoModule "(0, 9)" 0 "(0, 9)" 7]
    filter_blockHash [OF this(2), of demoModule "(0, 9)" 0 "(0, 9)" 7]
    filter_blockHash [OF this(3), of demoModule "(0, 9)" 0 "(0, 9)" 7]
  show ?thesis
    using found missing number
    by (simp add: extractLogTopics_def extractLogAddresses_def)
qed


section \<open>Block tags of the state-reading methods\<close>

lemma validateBlockTag_rejects:
  "blockTag = Some (BlockNumber n) \<or> blockTag = Some Earliest \<Longrightarrow>
     validateBlockTag blockTag
       = Inl (InvalidInputError ''Only latest and pending block params are supported'')"
  by (auto simp: validateBlockTag_def)

lemma validateBlockTag_accepts:
  "blockTag = None \<or> blockTag = Some Latest \<or> blockTag = Some Pending \<Longrightarrow>
     validateBlockTag blockTag = Inr ()"
  by (auto simp: validateBlockTag_def)

text \<open>
  Claim C3. For \<^verbatim>\<open>eth_call\<close>, \<^verbatim>\<open>eth_estimateGas\<close>, \<^verbatim>\<open>eth_getBalance\<close>, \<^verbatim>\<open>eth_getCode\<close>,
  \<^verbatim>\<open>eth_getStorageAt\<close> and \<^verbatim>\<open>eth_getTransactionCount\<close>: with a block tag that is an
  explicit block number or "earliest" the request fails with InvalidInput, whatever the
  node is, and leaves the node's state as it was (no node operation has run). An omitted
  tag, "latest" and "pending" pass the check, and the action is the same function of the
  node's state for the three of them; it fulfils, with the encoded answer, whenever the
  node operations it awaits fulfil.
\<close>

theorem blockTag_policy:
  "((blockTag = Some (BlockNumber n) \<or> blockTag = Some Earliest) \<longrightarrow>
      callAction m rpcCall blockTag s
        = (Inl (InvalidInputError ''Only latest and pending block params are supported''), s)
      \<and> estimateGasAction m rpcTx blockTag s
        = (Inl (InvalidInputError ''Only latest and pending block params are supported''), s)
      \<and> getBalanceAction m address blockTag s
        = (Inl (InvalidInputError ''Only latest and pending block params are supported''), s)
      \<and> getCodeAction m address blockTag s
        = (Inl (InvalidInputError ''Only latest and pending block params are supported''), s)
      \<and> getStorageAtAction m address slot blockTag s
        = (Inl (InvalidInputError ''Only latest and pending block params are supported''), s)
      \<and> getTransactionCountAction m address blockTag s
        = (Inl (InvalidInputError ''Only latest and pending block params are supported''), s))
   \<and> ((blockTag = None \<or> blockTag = Some Latest \<or> blockTag = Some Pending) \<longrightarrow>
      validateBlockTag blockTag = Inr ()
      \<and> callAction m rpcCall blockTag = callAction m rpcCall None
      \<and> estimateGasAction m rpcTx blockTag = estimateGasAction m rpcTx None
      \<and> getBalanceAction m address blockTag = getBalanceAction m address None
      \<and> getCodeAction m address blockTag = getCodeAction m address None
      \<and> getStorageAtAction m address slot blockTag = getStorageAtAction m address slot None
      \<and> getTransactionCountAction m address blockTag = getTransactionCountAction m address None
      \<and> (rpcCallRequestToNodeCallParams m rpcCall s = (Inr cp, s1)
           \<and> runCall m cp s1 = (Inr returnData, s2) \<longrightarrow>
          callAction m rpcCall blockTag s = (Inr (JString (bufferToRpcData returnData)), s2))
      \<and> (rpcTransactionRequestToNodeTransactionParams m rpcTx s = (Inr tp, s1)
           \<and> estimateGas m tp s1 = (Inr gas, s2) \<longrightarrow>
          estimateGasAction m rpcTx blockTag s = (Inr (JString (numberToRpcQuantity gas)), s2))
      \<and> (getAccountBalance m address s = (Inr balance, s1) \<longrightarrow>
          getBalanceAction m address blockTag s
            = (Inr (JString (numberToRpcQuantity balance)), s1))
      \<and> (getCode m address s = (Inr code, s1) \<longrightarrow>
          getCodeAction m address blockTag s = (Inr (JString (bufferToRpcData code)), s1))
      \<and> (getStorageAt m address slot s = (Inr data, s1) \<longrightarrow>
          getStorageAtAction m address slot blockTag s
            = (Inr (JString (if length data = 0 then ''0x0'' else bufferToRpcData data)), s1))
      \<and> (getAccountNonce m address s = (Inr nonce, s1) \<longrightarrow>
          getTransactionCountAction m address blockTag s
            = (Inr (JString (numberToRpcQuantity nonce)), s1)))"
proof (intro conjI impI)
  assume bad: "blockTag = Some (BlockNumber n) \<or> blockTag = Some Earliest"
  note r = validateBlockTag_rejects [OF bad]
  show "callAction m rpcCall blockTag s
        = (Inl (InvalidInputError ''Only latest and pending block params are supported''), s)"
    by (simp add: callAction_def r await_sync_Inl reject_def)
  show "estimateGasAction m rpcTx blockTag s
        = (Inl (InvalidInputError ''Only latest and pending block params are supported''), s)"
    by (simp add: estimateGasAction_def r await_sync_Inl reject_def)
  show "getBalanceAction m address blockTag s
        = (Inl (InvalidInputError ''Only latest and pending block params are supported''), s)"
    by (simp add: getBalanceAction_def r await_sync_Inl reject_def)
  show "getCodeAction m address blockTag s
        = (Inl (InvalidInputError ''Only latest and pending block params are supported''), s)"
    by (simp add: getCodeAction_def r await_sync_Inl reject_def)
  show "getStorageAtAction m address slot blockTag s
        = (Inl (InvalidInputError ''Only latest and pending block params are supported''), s)"
    by (simp add: getStorageAtAction_def r await_sync_Inl reject_def)
  show "getTransactionCountAction m address blockTag s
        = (Inl (InvalidInputError ''Only latest and pending block params are supported''), s)"
    by (simp add: getTransactionCountAction_def r await_sync_Inl reject_def)
next
  assume good: "blockTag = None \<or> blockTag = Some Latest \<or> blockTag = Some Pending"
  note a = validateBlockTag_accepts [OF good]
  have none: "validateBlockTag None = Inr ()"
    by (simp add: validateBlockTag_def)
  show "validateBlockTag blockTag = Inr ()" by (rule a)
  show "callAction m rpcCall blockTag = callAction m rpcCall None"
    by (simp add: callAction_def a none)
  show "estimateGasAction m rpcTx blockTag = estimateGasAction m rpcTx None"
    by (simp add: estimateGasAction_def a none)
  show "getBalanceAction m address blockTag = getBalanceAction m address None"
    by (simp add: getBalanceAction_def a none)
  show "getCodeAction m address blockTag = getCodeAction m address None"
    by (simp add: getCodeAction_def a none)
  show "getStorageAtAction m address slot blockTag = getStorageAtAction m address slot None"
    by (simp add: getStorageAtAction_def a none)
  show "getTransactionCountAction m address blockTag = getTransactionCountAction m address None"
    by (simp add: getTransactionCountAction_def a none)
  {
    assume "rpcCallRequestToNodeCallParams m rpcCall s = (Inr cp, s1)
           \<and> runCall m cp s1 = (Inr returnData, s2)"
    then show "callAction m rpcCall blockTag s = (Inr (JString (bufferToRpcData returnData)), s2)"
      by (simp add: callAction_def a await_sync_Inr) (simp add: await_def nodeCall_def resolve_def)
  }
  {
    assume "rpcTransactionRequestToNodeTransactionParams m rpcTx s = (Inr tp, s1)
           \<and> estimateGas m tp s1 = (Inr gas, s2)"
    then show "estimateGasAction m rpcTx blockTag s = (Inr (JString (numberToRpcQuantity gas)), s2)"
      by (simp add: estimateGasAction_def a await_sync_Inr)
        (simp add: await_def nodeCall_def resolve_def)
  }
  {
    assume "getAccountBalance m address s = (Inr balance, s1)"
    then show "getBalanceAction m address blockTag s
            = (Inr (JString (numberToRpcQuantity balance)), s1)"
      by (simp add: getBalanceAction_def a await_sync_Inr)
        (simp add: await_def nodeCall_def resolve_def)
  }
  {
    assume "getCode m address s = (Inr code, s1)"
    then show "getCodeAction m address blockTag s = (Inr (JString (bufferToRpcData code)), s1)"
      by (simp add: getCodeAction_def a await_sync_Inr)
        (simp add: await_def nodeCall_def resolve_def)
  }
  {
    assume "getStorageAt m address slot s = (Inr data, s1)"
    then show "getStorageAtAction m address slot blockTag s
            = (Inr (JString (if length data = 0 then ''0x0'' else bufferToRpcData data)), s1)"
      by (simp add: getStorageAtAction_def a await_sync_Inr)
        (simp add: await_def nodeCall_def resolve_def)
  }
  {
    assume "getAccountNonce m address s = (Inr nonce, s1)"
    then show "getTransactionCountAction m address blockTag s
            = (Inr (JString (numberToRpcQuantity nonce)), s1)"
      by (simp add: getTransactionCountAction_def a await_sync_Inr)
        (simp add: await_def nodeCall_def resolve_def)
  }
qed


theorem blockTag_policy_witness:
  "getBalanceAction demoModule (replicate 20 0) (Some Earliest) (0, 0)
     = (Inl (InvalidInputError ''Only latest and pending block params are supported''), (0, 0))
   \<and> callAction demoModule
       \<lparr>rc_from = None, rc_to = None, rc_gas = None, rc_gasPrice = None, rc_value = None,
        rc_data = Some [1, 2]\<rparr> (Some (BlockNumber 3)) (0, 0)
     = (Inl (InvalidInputError ''Only latest and pending block params are supported''), (0, 0))
   \<and> getBalanceAction demoModule (replicate 20 0) None (0, 0) = (Inr (JString ''0x3e8''), (0, 0))
   \<and> getBalanceAction demoModule (replicate 20 0) (Some Latest) (0, 0)
     = (Inr (JString ''0x3e8''), (0, 0))
   \<and> getBalanceAction demoModule (replicate 20 0) (Some Pending) (0, 0)
     = (Inr (JString ''0x3e8''), (0, 0))"
proof -
  have q: "numberToRpcQuantity 1000 = ''0x3e8''"
    by code_simp
  have b: "getAccountBalance demoModule (replicate 20 0) (0, 0) = (Inr 1000, (0, 0))"
    by (simp add: demoModule_def)
  show ?thesis
    using blockTag_policy [where blockTag = "Some Earliest" and m = demoModule and s = "(0, 0)"
        and address = "replicate 20 0"]
      blockTag_policy [where blockTag = "Some (BlockNumber 3)" and n = 3 and m = demoModule
        and s = "(0, 0)"
        and rpcCall = "\<lparr>rc_from = None, rc_to = None, rc_gas = None, rc_gasPrice = None,
                        rc_value = None, rc_data = Some [1, 2]\<rparr>"]
      blockTag_policy [where blockTag = None and m = demoModule and s = "(0, 0)"
        and address = "replicate 20 0" and balance = 1000 and ?s1.0 = "(0, 0)"]
      blockTag_policy [where blockTag = "Some Latest" and m = demoModule and s = "(0, 0)"
        and address = "replicate 20 0" and balance = 1000 and ?s1.0 = "(0, 0)"]
      blockTag_policy [where blockTag = "Some Pending" and m = demoModule and s = "(0, 0)"
        and address = "replicate 20 0" and balance = 1000 and ?s1.0 = "(0, 0)"]
      b q
    by simp
qed

section \<open>Defaults of a call request\<close>

lemma toBuffer_zeroAddress: "toBuffer zeroAddress = Inr (replicate 20 0)"
  by code_simp

lemma getDefaultCallFrom_result:
  assumes "getLocalAccountAddresses m s = (Inr accounts, s)"
    and "accounts \<noteq> [] \<longrightarrow> toBuffer (hd accounts) = Inr first"
  shows "getDefaultCallFrom m s = (Inr (if accounts = [] then replicate 20 0 else first), s)"
  using assms
  by (cases accounts)
    (simp_all add: getDefaultCallFrom_def await_def nodeCall_def sync_def toBuffer_zeroAddress)

text \<open>
  Claim C6. Where the node's reads answer (its local accounts, its block gas limit and
  its gas price, each only asked for when the field is omitted) and leave the state as it
  is, the call request is normalized to: \<^verbatim>\<open>to\<close> as given, or the empty byte sequence;
  \<^verbatim>\<open>data\<close> as given, or empty; \<^verbatim>\<open>value\<close> as given, or 0; \<^verbatim>\<open>gas\<close> as given, or the block
  gas limit; \<^verbatim>\<open>gasPrice\<close> as given, or the gas price; \<^verbatim>\<open>from\<close> as given, or the bytes
  of the first local account, or twenty zero bytes when the node has no local account.
  These are the parameters \<^verbatim>\<open>eth_call\<close> hands to the node's \<^verbatim>\<open>runCall\<close>.
\<close>

theorem callRequest_defaults:
  assumes "rc_from rpcCall = None \<longrightarrow>
             getLocalAccountAddresses m s = (Inr accounts, s)
             \<and> (accounts \<noteq> [] \<longrightarrow> toBuffer (hd accounts) = Inr first)"
    and "rc_gas rpcCall = None \<longrightarrow> getBlockGasLimit m s = (Inr blockGasLimit, s)"
    and "rc_gasPrice rpcCall = None \<longrightarrow> getGasPrice m s = (Inr price, s)"
  shows "rpcCallRequestToNodeCallParams m rpcCall s =
           (Inr \<lparr>cp_to = (case rc_to rpcCall of Some a \<Rightarrow> a | None \<Rightarrow> []),
                 cp_from = (case rc_from rpcCall of
                              Some a \<Rightarrow> a
                            | None \<Rightarrow> if accounts = [] then replicate 20 0 else first),
                 cp_data = (case rc_data rpcCall of Some d \<Rightarrow> d | None \<Rightarrow> []),
                 cp_gasLimit = (case rc_gas rpcCall of Some g \<Rightarrow> g | None \<Rightarrow> blockGasLimit),
                 cp_gasPrice = (case rc_gasPrice rpcCall of Some p \<Rightarrow> p | None \<Rightarrow> price),
                 cp_value = (case rc_value rpcCall of Some v \<Rightarrow> v | None \<Rightarrow> 0)\<rparr>, s)
         \<and> callAction m rpcCall None s =
             await (nodeCall (runCall m
                \<lparr>cp_to = (case rc_to rpcCall of Some a \<Rightarrow> a | None \<Rightarrow> []),
                 cp_from = (case rc_from rpcCall of
                              Some a \<Rightarrow> a
                            | None \<Rightarrow> if accounts = [] then replicate 20 0 else first),
                 cp_data = (case rc_data rpcCall of Some d \<Rightarrow> d | None \<Rightarrow> []),
                 cp_gasLimit = (case rc_gas rpcCall of Some g \<Rightarrow> g | None \<Rightarrow> blockGasLimit),
                 cp_gasPrice = (case rc_gasPrice rpcCall of Some p \<Rightarrow> p | None \<Rightarrow> price),
                 cp_value = (case rc_value rpcCall of Some v \<Rightarrow> v | None \<Rightarrow> 0)\<rparr>))
               (\<lambda>returnData. resolve (JString (bufferToRpcData returnData))) s"
proof -
  have f: "(case rc_from rpcCall of Some a \<Rightarrow> resolve a | None \<Rightarrow> getDefaultCallFrom m) s
      = (Inr (case rc_from rpcCall of
                Some a \<Rightarrow> a
              | None \<Rightarrow> if accounts = [] then replicate 20 0 else first), s)"
    using assms(1) by (cases "rc_from rpcCall") (simp_all add: resolve_def getDefaultCallFrom_result)
  have g: "(case rc_gas rpcCall of Some g \<Rightarrow> resolve g | None \<Rightarrow> nodeCall (getBlockGasLimit m)) s
      = (Inr (case rc_gas rpcCall of Some g \<Rightarrow> g | None \<Rightarrow> blockGasLimit), s)"
    using assms(2) by (cases "rc_gas rpcCall") (simp_all add: resolve_def nodeCall_def)
  have p: "(case rc_gasPrice rpcCall of Some p \<Rightarrow> resolve p | None \<Rightarrow> nodeCall (getGasPrice m)) s
      = (Inr (case rc_gasPrice rpcCall of Some p \<Rightarrow> p | None \<Rightarrow> price), s)"
    using assms(3) by (cases "rc_gasPrice rpcCall") (simp_all add: resolve_def nodeCall_def)
  have n: "rpcCallRequestToNodeCallParams m rpcCall s =
           (Inr \<lparr>cp_to = (case rc_to rpcCall of Some a \<Rightarrow> a | None \<Rightarrow> []),
                 cp_from = (case rc_from rpcCall of
                              Some a \<Rightarrow> a
                            | None \<Rightarrow> if accounts = [] then replicate 20 0 else first),
                 cp_data = (case rc_data rpcCall of Some d \<Rightarrow> d | None \<Rightarrow> []),
                 cp_gasLimit = (case rc_gas rpcCall of Some g \<Rightarrow> g | None \<Rightarrow> blockGasLimit),
                 cp_gasPrice = (case rc_gasPrice rpcCall of Some p \<Rightarrow> p | None \<Rightarrow> price),
                 cp_value = (case rc_value rpcCall of Some v \<Rightarrow> v | None \<Rightarrow> 0)\<rparr>, s)"
    unfolding rpcCallRequestToNodeCallParams_def
    by (simp add: await_def f g p resolve_def)
  have "validateBlockTag None = Inr ()"
    by (simp add: validateBlockTag_def)
  then have "callAction m rpcCall None s =
      await (rpcCallRequestToNodeCallParams m rpcCall)
        (\<lambda>callParams. await (nodeCall (runCall m callParams))
           (\<lambda>returnData. resolve (JString (bufferToRpcData returnData)))) s"
    by (simp add: callAction_def await_sync_Inr)
  with n show ?thesis
    by (simp add: await_apply_Inr [of "rpcCallRequestToNodeCallParams m rpcCall", OF n])
qed

theorem callRequest_defaults_witness:
  "rpcCallRequestToNodeCallParams demoModule
     \<lparr>rc_from = None, rc_to = Some (replicate 20 7), rc_gas = None, rc_gasPrice = None,
      rc_value = None, rc_data = None\<rparr> (0, 0)
     = (Inr \<lparr>cp_to = replicate 20 7,
             cp_from = replicate 19 0 @ [170],
             cp_data = [],
             cp_gasLimit = 9500000,
             cp_gasPrice = 8000000000,
             cp_value = 0\<rparr>, (0, 0))
   \<and> rpcCallRequestToNodeCallParams (demoModule\<lparr>getLocalAccountAddresses := (\<lambda>s. (Inr [], s))\<rparr>)
     \<lparr>rc_from = None, rc_to = None, rc_gas = Some 5, rc_gasPrice = Some 6,
      rc_value = Some 7, rc_data = Some [8]\<rparr> (0, 0)
     = (Inr \<lparr>cp_to = [],
             cp_from = replicate 20 0,
             cp_data = [8],
             cp_gasLimit = 5,
             cp_gasPrice = 6,
             cp_value = 7\<rparr>, (0, 0))"
proof -
  have acct: "toBuffer ''0x00000000000000000000000000000000000000aa'' = Inr (replicate 19 0 @ [170])"
    by code_simp
  have a: "rc_from \<lparr>rc_from = None, rc_to = Some (replicate 20 7), rc_gas = None,
                   rc_gasPrice = None, rc_value = None, rc_data = None\<rparr> = None \<longrightarrow>
      getLocalAccountAddresses demoModule (0, 0)
        = (Inr [''0x00000000000000000000000000000000000000aa''], (0, 0))
      \<and> ([''0x00000000000000000000000000000000000000aa''] \<noteq> [] \<longrightarrow>
           toBuffer (hd [''0x00000000000000000000000000000000000000aa''])
             = Inr (replicate 19 0 @ [170]))"
    using acct by (simp add: demoModule_def)
  have b: "getBlockGasLimit demoModule (0, 0) = (Inr 9500000, (0, 0))"
    and c: "getGasPrice demoModule (0, 0) = (Inr 8000000000, (0, 0))"
    by (simp_all add: demoModule_def)
  have d: "getLocalAccountAddresses (demoModule\<lparr>getLocalAccountAddresses := (\<lambda>s. (Inr [], s))\<rparr>)
             (0, 0) = (Inr [], (0, 0))"
    by simp
  show ?thesis
    using callRequest_defaults [of _ demoModule "(0, 0)", OF a] b c
      callRequest_defaults [of "\<lparr>rc_from = None, rc_to = None, rc_gas = Some 5, rc_gasPrice = Some 6,
          rc_value = Some 7, rc_data = Some [8]\<rparr>"
        "demoModule\<lparr>getLocalAccountAddresses := (\<lambda>s. (Inr [], s))\<rparr>" "(0, 0)" "[]" "[]" 0 0] d
    by simp
qed


section \<open>Routing\<close>

text \<open>Each case of the \<^verbatim>\<open>switch\<close> in \<^verbatim>\<open>processRequest\<close>, by method name.\<close>

lemma route_accounts:
  "processRequest m ''eth_accounts'' params =
     invoke (accountsParams params) (\<lambda>_. accountsAction m)"
  by (simp add: processRequest_def)


































lemma route_newBlockFilter:
  "processRequest m ''eth_newBlockFilter'' params =
     invoke (newBlockFilterParams params) (\<lambda>_. newBlockFilterAction m)"
  by (simp add: processRequest_def)


lemma route_newPendingTransactionFilter:
  "processRequest m ''eth_newPendingTransactionFilter'' params =
     invoke (newPendingTransactionParams params) (\<lambda>_. newPendingTransactionAction m)"
  by (simp add: processRequest_def)

lemma route_pendingTransactions:
  "processRequest m ''eth_pendingTransactions'' params =
     invoke (pendingTransactionsParams params) (\<lambda>_. pendingTransactionsAction m)"
  by (simp add: processRequest_def)









lemma route_subscribe:
  "processRequest m ''eth_subscribe'' params =
     invoke (subscribeParams params) (\<lambda>(r, f, callback). subscribeAction m r f callback)"
  by (simp add: processRequest_def)



lemma route_unsubscribe:
  "processRequest m ''eth_unsubscribe'' params =
     invoke (unsubscribeParams params) (unsubscribeAction m)"
  by (simp add: processRequest_def)

section \<open>Outcomes of the supported methods\<close>








lemma not_dispatchError [simp]:
  "\<not> dispatchError (InvalidInputError x)"
  "\<not> dispatchError (InvalidArgumentsError x)"
  "\<not> dispatchError (JsError x)"
  "\<not> dispatchError (NodeFailure x)"
  "\<not> dispatchError wrongArity"
  "\<not> dispatchError wrongShape"
  by (simp_all add: dispatchError_def wrongArity_def wrongShape_def)






lemma validateBlockTag_handled [simp]: "\<not> dispatchFailure (validateBlockTag t)"
  by (simp add: validateBlockTag_def dispatchFailure_def)

lemma BN_toNumber_handled [simp]: "\<not> dispatchFailure (BN_toNumber n)"
  by (simp add: BN_toNumber_def dispatchFailure_def)

lemma toBuffer_handled [simp]: "\<not> dispatchFailure (toBuffer v)"
  by (simp add: toBuffer_def dispatchFailure_def)

lemma toRpcSig_handled [simp]:
  "\<not> dispatchFailure (case r of Inl x \<Rightarrow> Inl (JsError x) | Inr sig \<Rightarrow> Inr sig)"
  by (cases r) (simp_all add: dispatchFailure_def)

lemma extractBlock_handled: "extractBlock t = Inl e \<Longrightarrow> \<not> dispatchError e"
  by (cases t rule: extractBlock.cases) (auto simp: BN_toNumber_def split: if_splits)

lemma buildFilterParams_handled [simp]: "\<not> dispatchFailure (buildFilterParams f)"
  by (auto simp: buildFilterParams_def dispatchFailure_def split: sum.splits
      dest: extractBlock_handled)















































































section \<open>The three outcomes of the dispatcher\<close>








section \<open>Subscriptions\<close>

lemma isFunction_cases: "\<not> isFunction v \<Longrightarrow> (case v of JFunction callback \<Rightarrow> f callback | _ \<Rightarrow> d) = d"
  by (cases v) (simp_all add: isFunction_def)

lemma subscribeParams_logs:
  "subscribeParams [JString ''logs'', JFunction callback] = Inr (Logs, None, callback)"
  by (simp add: subscribeParams_def validateParams2_def arityOk_def param_def
      rpcSubscribeRequest_def optionalRpcFilterRequest_def optional_def decodeSubscribeRequest_def)

lemma subscribeParams_newHeads:
  "subscribeParams [JString ''newHeads'', JFunction callback] = Inr (NewHeads, None, callback)"
  by (simp add: subscribeParams_def validateParams2_def arityOk_def param_def
      rpcSubscribeRequest_def optionalRpcFilterRequest_def optional_def decodeSubscribeRequest_def)

lemma unsubscribeParams_quantity:
  "unsubscribeParams [JString (numberToRpcQuantity n)] = Inr n"
  by (simp add: unsubscribeParams_def validateParams1_def arityOk_def param_def rpcQuantity_def
      decodeQuantity_numberToRpcQuantity)

text \<open>
  Claim C5. A \<^verbatim>\<open>logs\<close> subscription without filter criteria fails with InvalidArguments
  "missing params argument". A subscribe request with fewer than two arguments, or whose
  last argument is not a function, fails with InvalidInput. A
  \<^verbatim>\<open>subscribe("newHeads", callback)\<close> request for which the node creates the block filter
  \<open>filterId\<close> returns that id as a quantity, and \<^verbatim>\<open>eth_unsubscribe\<close> accepts the returned
  string: it passes validation and the node is asked to uninstall exactly \<open>filterId\<close>, as a
  subscription (ids are JavaScript integers, below \<open>2 ^ 53\<close>).
\<close>

theorem subscribe_requests:
  "subscribeParams [JString ''logs'', JFunction callback] = Inr (Logs, None, callback)
   \<and> processRequest m ''eth_subscribe'' [JString ''logs'', JFunction callback] s
       = (Inl (InvalidArgumentsError ''missing params argument''), s)
   \<and> (length params < 2 \<or> \<not> isFunction (last params) \<longrightarrow>
        processRequest m ''eth_subscribe'' params s
          = (Inl (InvalidInputError
                    (if length params = 1 then ''Expected subscription name as first argument''
                     else ''Notifications not supported'')), s))
   \<and> (newBlockFilter m (Some callback) s = (Inr filterId, s') \<longrightarrow>
        processRequest m ''eth_subscribe'' [JString ''newHeads'', JFunction callback] s
          = (Inr (JString (numberToRpcQuantity filterId)), s')
        \<and> unsubscribeParams [JString (numberToRpcQuantity filterId)] = Inr filterId
        \<and> (filterId < 2 ^ 53 \<and> uninstallFilter m filterId True s' = (Inr removed, s'') \<longrightarrow>
             processRequest m ''eth_unsubscribe'' [JString (numberToRpcQuantity filterId)] s'
               = (Inr (JBool removed), s'')))"
proof (intro conjI impI)
  show "subscribeParams [JString ''logs'', JFunction callback] = Inr (Logs, None, callback)"
    by (rule subscribeParams_logs)
  show "processRequest m ''eth_subscribe'' [JString ''logs'', JFunction callback] s
       = (Inl (InvalidArgumentsError ''missing params argument''), s)"
    by (simp add: route_subscribe subscribeParams_logs invoke_def subscribeAction_def reject_def)
next
  assume h: "length params < 2 \<or> \<not> isFunction (last params)"
  have "subscribeParams params
      = Inl (InvalidInputError
               (if length params = 1 then ''Expected subscription name as first argument''
                else ''Notifications not supported''))"
  proof (cases "length params < 2")
    case True
    then have "length params = 0 \<or> length params = 1" by arith
    then show ?thesis by (auto simp: subscribeParams_def)
  next
    case False
    with h have "\<not> isFunction (last params)" by simp
    with False show ?thesis
      by (simp add: subscribeParams_def isFunction_cases)
  qed
  then show "processRequest m ''eth_subscribe'' params s
          = (Inl (InvalidInputError
                    (if length params = 1 then ''Expected subscription name as first argument''
                     else ''Notifications not supported'')), s)"
    by (simp add: route_subscribe invoke_def reject_def)
next
  assume n: "newBlockFilter m (Some callback) s = (Inr filterId, s')"
  then show "processRequest m ''eth_subscribe'' [JString ''newHeads'', JFunction callback] s
          = (Inr (JString (numberToRpcQuantity filterId)), s')"
    by (simp add: route_subscribe subscribeParams_newHeads invoke_def subscribeAction_def
        await_def nodeCall_def resolve_def)
  show "unsubscribeParams [JString (numberToRpcQuantity filterId)] = Inr filterId"
    by (rule unsubscribeParams_quantity)
  assume "filterId < 2 ^ 53 \<and> uninstallFilter m filterId True s' = (Inr removed, s'')"
  then show "processRequest m ''eth_unsubscribe'' [JString (numberToRpcQuantity filterId)] s'
               = (Inr (JBool removed), s'')"
    by (simp add: route_unsubscribe unsubscribeParams_quantity invoke_def unsubscribeAction_def
        BN_toNumber_def await_def sync_def nodeCall_def resolve_def)
qed

theorem subscribe_requests_witness:
  "processRequest demoModule ''eth_subscribe'' [JString ''newHeads''] (4, 0)
     = (Inl (InvalidInputError ''Expected subscription name as first argument''), (4, 0))
   \<and> processRequest demoModule ''eth_subscribe'' [JString ''newHeads'', JObject []] (4, 0)
     = (Inl (InvalidInputError ''Notifications not supported''), (4, 0))
   \<and> processRequest demoModule ''eth_subscribe'' [JString ''newHeads'', JFunction 9] (4, 0)
     = (Inr (JString ''0x4''), (5, 0))
   \<and> processRequest demoModule ''eth_unsubscribe'' [JString ''0x4''] (5, 0)
     = (Inr (JBool True), (5, 0))"
proof -
  have q: "numberToRpcQuantity 4 = ''0x4''"
    by code_simp
  have a: "newBlockFilter demoModule (Some 9) (4, 0) = (Inr 4, (5, 0))"
    by (simp add: demoModule_def)
  have b: "uninstallFilter demoModule 4 True (5, 0) = (Inr True, (5, 0))"
    by (simp add: demoModule_def)
  show ?thesis
    using subscribe_requests [where m = demoModule and params = "[JString ''newHeads'']"
        and s = "(4, 0)"]
      subscribe_requests [where m = demoModule and params = "[JString ''newHeads'', JObject []]"
        and s = "(4, 0)"]
      subscribe_requests [where m = demoModule and s = "(4, 0)" and callback = 9
        and filterId = 4 and s' = "(5, 0)" and removed = True and s'' = "(5, 0)"]
      a b q
    by (simp add: isFunction_def)
qed

section \<open>Methods without arguments\<close>

text \<open>
  Claim C9 fails on three methods. The parameter functions of \<^verbatim>\<open>eth_newBlockFilter\<close>,
  \<^verbatim>\<open>eth_newPendingTransactionFilter\<close> and \<^verbatim>\<open>eth_pendingTransactions\<close> return the empty
  tuple without looking at the arguments, so a request with extra arguments runs the
  action (on the small node, \<^verbatim>\<open>eth_newBlockFilter\<close> with one argument creates filter 0),
  where the other methods without arguments, such as \<^verbatim>\<open>eth_accounts\<close>, reject any
  non-empty argument list.
\<close>

theorem no_argument_methods_accept_extra_arguments:
  "processRequest m ''eth_newBlockFilter'' params = newBlockFilterAction m
   \<and> processRequest m ''eth_newPendingTransactionFilter'' params = newPendingTransactionAction m
   \<and> processRequest m ''eth_pendingTransactions'' params = pendingTransactionsAction m
   \<and> processRequest demoModule ''eth_newBlockFilter'' [JString ''0x1''] (0, 0)
       = (Inr (JString ''0x0''), (1, 0))
   \<and> processRequest m ''eth_accounts'' (x # xs) s = (Inl wrongArity, s)"
proof -
  have q: "numberToRpcQuantity 0 = ''0x0''"
    by code_simp
  have "processRequest demoModule ''eth_newBlockFilter'' [JString ''0x1''] (0, 0)
       = (Inr (JString ''0x0''), (1, 0))"
    by (simp add: route_newBlockFilter invoke_def newBlockFilterParams_def
        newBlockFilterAction_def await_def nodeCall_def resolve_def demoModule_def q)
  moreover have "processRequest m ''eth_accounts'' (x # xs) s = (Inl wrongArity, s)"
    by (simp add: route_accounts invoke_def accountsParams_def validateParams0_def arityOk_def
        reject_def)
  ultimately show ?thesis
    by (simp add: route_newBlockFilter route_newPendingTransactionFilter
        route_pendingTransactions invoke_def newBlockFilterParams_def
        newPendingTransactionParams_def pendingTransactionsParams_def)
qed

end
